theory Spec2Isabelle
  imports Complex_Main "HOL-Library.Sublist"
begin

section \<open>TokenGate: a shallow embedding of the admission-control engine\<close>

text \<open>
  The Python sources embedded here are \<^verbatim>\<open>src/pricing/models.py\<close>,
  \<^verbatim>\<open>src/pricing/calculator.py\<close>, \<^verbatim>\<open>src/budget/manager.py\<close>,
  \<^verbatim>\<open>src/anomaly/detector.py\<close>, \<^verbatim>\<open>src/proxy/forwarder.py\<close>,
  \<^verbatim>\<open>src/proxy/router.py\<close>, \<^verbatim>\<open>src/utils/validators.py\<close> and
  \<^verbatim>\<open>src/utils/logging.py\<close>.

  Conventions of the embedding.
  \<^item> Python \<^verbatim>\<open>float\<close> and \<^verbatim>\<open>Decimal\<close> amounts are exact rationals (\<open>rat\<close>):
    the value of an arithmetic operation is the exact one, the rounding of binary floating
    point and the 28-digit precision of the decimal context are not modelled. What an
    operation raises is modelled: the conversion of an integer to a \<^verbatim>\<open>float\<close> raises
    \<^verbatim>\<open>OverflowError\<close> when the integer lies beyond the range of a double.
  \<^item> Time is a rational number of seconds since the epoch. One call of a modelled
    function happens at one instant \<open>now\<close>, read by the gateway
    (\<^verbatim>\<open>datetime.utcnow()\<close>) and by the store alike.
  \<^item> A raised exception is the \<open>Inl\<close> of a sum; a function that touches the store
    returns the store as it is at the raise as well, since nothing is rolled back.
\<close>

subsection \<open>Exceptions\<close>

datatype error =
    ValueError
  | TypeError
  | AttributeError
  | InvalidOperation
  | ConnectionError
  | ResponseError
  | OverflowError
  | RuntimeError string error

text \<open>\<^verbatim>\<open>str(e)\<close>: the text of an exception is abstracted to the name of its class,
  and for the \<^verbatim>\<open>RuntimeError\<close>s of the budget manager to its message.\<close>

fun str_error :: "error \<Rightarrow> string" where
  "str_error ValueError = ''ValueError''"
| "str_error TypeError = ''TypeError''"
| "str_error AttributeError = ''AttributeError''"
| "str_error InvalidOperation = ''InvalidOperation''"
| "str_error ConnectionError = ''ConnectionError''"
| "str_error ResponseError = ''ResponseError''"
| "str_error OverflowError = ''OverflowError''"
| "str_error (RuntimeError msg e) = msg @ str_error e"

subsection \<open>Rendering numbers (f-strings)\<close>

definition digit_char :: "nat \<Rightarrow> char" where
  "digit_char d = ''0123456789'' ! (d mod 10)"

fun str_nat :: "nat \<Rightarrow> string" where
  "str_nat n = (if n < 10 then [digit_char n] else str_nat (n div 10) @ [digit_char n])"

declare str_nat.simps [simp del]

definition str_int :: "int \<Rightarrow> string" where
  "str_int i = (if i < 0 then CHR ''-'' # str_nat (nat (- i)) else str_nat (nat i))"

text \<open>\<^verbatim>\<open>f"{x:.4f}"\<close>: four decimals, the nearest such value, ties to the even one.\<close>

definition round_half_even :: "rat \<Rightarrow> int" where
  "round_half_even x =
     (let f = \<lfloor>x\<rfloor>; r = x - of_int f
      in if r < 1 / 2 then f
         else if 1 / 2 < r then f + 1
         else if even f then f else f + 1)"

definition pad4 :: "string \<Rightarrow> string" where
  "pad4 s = replicate (4 - length s) CHR ''0'' @ s"

definition format_4f :: "rat \<Rightarrow> string" where
  "format_4f x =
     (let n = nat (round_half_even (\<bar>x\<bar> * 10000))
      in (if x < 0 then ''-'' else '''')
         @ str_nat (n div 10000) @ ''.'' @ pad4 (str_nat (n mod 10000)))"

subsection \<open>Pricing table (\<^verbatim>\<open>src/pricing/models.py\<close>)\<close>

text \<open>
  \<^verbatim>\<open>self.prices: Dict[str, Dict[str, float]]\<close> is the JSON object of
  \<^verbatim>\<open>data/pricing_tables.json\<close>. A Python dict iterates in insertion order, so the
  table is an association list in the order of the file; the file itself is not part of
  the sources and the table is a parameter of every function that reads it.
\<close>

type_synonym pricing = "(string \<times> rat) list"
type_synonym price_table = "(string \<times> pricing) list"

text \<open>The loop \<^verbatim>\<open>for key in self.prices.keys(): if model.startswith(key): return self.prices[key]\<close>.\<close>

fun first_prefix_match :: "price_table \<Rightarrow> string \<Rightarrow> pricing option" where
  "first_prefix_match [] model = None"
| "first_prefix_match ((key, p) # rest) model =
     (if prefix key model then Some p else first_prefix_match rest model)"

definition get_pricing :: "price_table \<Rightarrow> string \<Rightarrow> error + pricing" where
  "get_pricing prices model =
     (case map_of prices model of
        Some p \<Rightarrow> Inr p
      | None \<Rightarrow>
          (case first_prefix_match prices model of
             Some p \<Rightarrow> Inr p
           | None \<Rightarrow> Inl ValueError))"

definition has_model :: "price_table \<Rightarrow> string \<Rightarrow> bool" where
  "has_model prices model =
     (case get_pricing prices model of Inr _ \<Rightarrow> True | Inl _ \<Rightarrow> False)"

text \<open>
  The lookup as the specification words it, for comparison with \<open>get_pricing\<close>: the
  exact entry, else the entry of the longest registered key that is a prefix of the
  requested name (the earliest of them in the table among keys of equal length, which
  for the distinct keys of a dict are one and the same key).
\<close>

fun longest_prefix_key :: "price_table \<Rightarrow> string \<Rightarrow> string option" where
  "longest_prefix_key [] model = None"
| "longest_prefix_key ((key, p) # rest) model =
     (case longest_prefix_key rest model of
        None \<Rightarrow> (if prefix key model then Some key else None)
      | Some k \<Rightarrow> (if prefix key model \<and> length k \<le> length key then Some key else Some k))"

definition spec_get_pricing :: "price_table \<Rightarrow> string \<Rightarrow> error + pricing" where
  "spec_get_pricing prices model =
     (case map_of prices model of
        Some p \<Rightarrow> Inr p
      | None \<Rightarrow>
          (case longest_prefix_key prices model of
             Some k \<Rightarrow> (case map_of prices k of Some p \<Rightarrow> Inr p | None \<Rightarrow> Inl ValueError)
           | None \<Rightarrow> Inl ValueError))"

subsection \<open>Cost calculator (\<^verbatim>\<open>src/pricing/calculator.py\<close>)\<close>

text \<open>\<^verbatim>\<open>d.get(key, default)\<close> on a dict held as an association list.\<close>

definition dict_get :: "('k \<times> 'v) list \<Rightarrow> 'k \<Rightarrow> 'v \<Rightarrow> 'v" where
  "dict_get d k dflt = (case map_of d k of Some v \<Rightarrow> v | None \<Rightarrow> dflt)"

text \<open>
  \<^verbatim>\<open>str.split()\<close> with no argument: the maximal runs of characters that are not
  whitespace. The characters are read as code points below 256, where Python's
  \<^verbatim>\<open>str.isspace\<close> holds for 9 to 13, 28 to 32, 133 and 160.
\<close>

definition is_space :: "char \<Rightarrow> bool" where
  "is_space c =
     (let n = (of_char c :: nat)
      in (9 \<le> n \<and> n \<le> 13) \<or> (28 \<le> n \<and> n \<le> 32) \<or> n = 133 \<or> n = 160)"

fun split_from :: "string \<Rightarrow> string \<Rightarrow> string list" where
  "split_from cur [] = (if cur = [] then [] else [cur])"
| "split_from cur (c # cs) =
     (if is_space c
      then (if cur = [] then split_from [] cs else cur # split_from [] cs)
      else split_from (cur @ [c]) cs)"

definition py_split :: "string \<Rightarrow> string list" where
  "py_split s = split_from [] s"

text \<open>
  \<^verbatim>\<open>messages\<close> is \<^verbatim>\<open>Optional[list]\<close>: \<open>None\<close> when the body has no such field, else
  the list, each message held as the text \<^verbatim>\<open>str(msg)\<close> that the estimator splits.
  A list is truthy when it is not empty.
\<close>

type_synonym messages = "string list option"

definition truthy_messages :: "messages \<Rightarrow> bool" where
  "truthy_messages ms = (case ms of None \<Rightarrow> False | Some l \<Rightarrow> l \<noteq> [])"

definition fallback_pricing :: pricing where
  "fallback_pricing = [(''input'', 3 / 100), (''output'', 6 / 100)]"

text \<open>\<^verbatim>\<open>try: pricing = get_pricing(model) except ValueError: pricing = {...}\<close>: any other
  exception would pass through.\<close>

definition pricing_or_fallback :: "price_table \<Rightarrow> string \<Rightarrow> error + pricing" where
  "pricing_or_fallback prices model =
     (case get_pricing prices model of
        Inr p \<Rightarrow> Inr p
      | Inl e \<Rightarrow> (if e = ValueError then Inr fallback_pricing else Inl e))"

text \<open>
  \<^verbatim>\<open>n / 1000.0\<close> with \<open>n\<close> an \<^verbatim>\<open>int\<close> first converts \<open>n\<close> to a \<^verbatim>\<open>float\<close>. CPython rounds
  \<open>n\<close> to 53 significant bits, ties to even, and raises \<^verbatim>\<open>OverflowError\<close> when the rounded value is \<open>2^1024\<close> or more in magnitude:
  the integers that convert are those of magnitude below \<open>2^1024 - 2^970\<close>, the midpoint
  between the largest double and \<open>2^1024\<close>.
\<close>

definition fits_float :: "int \<Rightarrow> bool" where
  "fits_float n = (\<bar>n\<bar> < 2 ^ 1024 - 2 ^ 970)"

definition float_of_int :: "int \<Rightarrow> error + rat" where
  "float_of_int n = (if fits_float n then Inr (of_int n) else Inl OverflowError)"

definition estimate_cost ::
  "price_table \<Rightarrow> string \<Rightarrow> int option \<Rightarrow> int option \<Rightarrow> messages \<Rightarrow> error + rat" where
  "estimate_cost prices model input_tokens max_tokens msgs =
     (case pricing_or_fallback prices model of
        Inl e \<Rightarrow> Inl e
      | Inr pricing \<Rightarrow>
          (let input_price_per_1k = dict_get pricing ''input'' 0;
               output_price_per_1k = dict_get pricing ''output'' 0;
               estimated_input =
                 (case input_tokens of
                    Some n \<Rightarrow> n
                  | None \<Rightarrow>
                      (if truthy_messages msgs
                       then sum_list (map (\<lambda>msg. int (length (py_split msg)) * 4) (the msgs))
                       else 1000));
               estimated_output = (case max_tokens of Some n \<Rightarrow> n | None \<Rightarrow> 500)
           in case float_of_int estimated_input of
                Inl e \<Rightarrow> Inl e
              | Inr i \<Rightarrow>
                  (let input_cost = (i / 1000) * input_price_per_1k
                   in case float_of_int estimated_output of
                        Inl e \<Rightarrow> Inl e
                      | Inr out \<Rightarrow>
                          (let output_cost = (out / 1000) * output_price_per_1k
                           in Inr (input_cost + output_cost)))))"

subsection \<open>JSON values\<close>

text \<open>A value as \<^verbatim>\<open>json\<close> parses it: a number written as an integer is an \<^verbatim>\<open>int\<close>
  (\<open>JInt\<close>), any other number a \<^verbatim>\<open>float\<close> (\<open>JNum\<close>).\<close>

datatype json =
    JNull
  | JBool bool
  | JInt int
  | JNum rat
  | JStr string
  | JArr "json list"
  | JObj "(string \<times> json) list"

subsection \<open>The shared state store (Redis)\<close>

text \<open>
  Redis keeps every scalar as a string. The model keeps a scalar by what its text
  denotes: \<open>RStr\<close> a text used as text (a request hash, a freeze reason), \<open>RInt\<close> an
  integer literal as \<^verbatim>\<open>INCR\<close> maintains it, \<open>RDec\<close> a decimal literal as
  \<^verbatim>\<open>str(amount)\<close> and \<^verbatim>\<open>str(Decimal)\<close> write it, \<open>RTime\<close> an ISO timestamp as
  \<^verbatim>\<open>datetime.isoformat()\<close> writes it. \<open>RZSet\<close> is a sorted set, member to score (the
  member \<^verbatim>\<open>str(timestamp)\<close> is held as the timestamp), and \<open>RList\<close> a list: the audit
  trail, each element the triple (timestamp, model, cost) that \<^verbatim>\<open>_log_request\<close>
  serialises.
\<close>

datatype rvalue =
    RStr string
  | RInt int
  | RDec rat
  | RTime rat
  | RZSet "(rat \<times> rat) list"
  | RList "(rat \<times> string \<times> rat) list"

text \<open>A key holds a value and, when it has a time to live, the instant it expires at.\<close>

datatype entry = Entry (stored: rvalue) (expiry: "rat option")

type_synonym store = "string \<Rightarrow> entry option"

text \<open>The value a command sees under a key at \<open>now\<close>: an expired key is an absent key.\<close>

definition live :: "store \<Rightarrow> rat \<Rightarrow> string \<Rightarrow> rvalue option" where
  "live s now k =
     (case s k of
        None \<Rightarrow> None
      | Some e \<Rightarrow>
          (case expiry e of
             None \<Rightarrow> Some (stored e)
           | Some t \<Rightarrow> (if now < t then Some (stored e) else None)))"

text \<open>The time to live a key keeps when a command rewrites its value in place.\<close>

definition kept_expiry :: "store \<Rightarrow> string \<Rightarrow> rat option" where
  "kept_expiry s k = (case s k of None \<Rightarrow> None | Some e \<Rightarrow> expiry e)"

definition is_string :: "rvalue \<Rightarrow> bool" where
  "is_string v = (case v of RZSet _ \<Rightarrow> False | RList _ \<Rightarrow> False | _ \<Rightarrow> True)"

text \<open>
  The commands, as functions of the store. \<^verbatim>\<open>GET\<close> of a set or list, \<^verbatim>\<open>INCR\<close> of
  anything but an integer and a set command on a key of another type are refused by the
  server (\<open>ResponseError\<close>).
\<close>

definition store_get :: "string \<Rightarrow> rat \<Rightarrow> store \<Rightarrow> error + rvalue option \<times> store" where
  "store_get k now s =
     (case live s now k of
        None \<Rightarrow> Inr (None, s)
      | Some v \<Rightarrow> (if is_string v then Inr (Some v, s) else Inl ResponseError))"

definition store_set :: "string \<Rightarrow> rvalue \<Rightarrow> rat \<Rightarrow> store \<Rightarrow> error + unit \<times> store" where
  "store_set k v now s = Inr ((), s(k \<mapsto> Entry v None))"

text \<open>\<^verbatim>\<open>SETEX\<close> refuses a time to live that is not positive.\<close>

definition store_setex :: "string \<Rightarrow> rat \<Rightarrow> rvalue \<Rightarrow> rat \<Rightarrow> store \<Rightarrow> error + unit \<times> store" where
  "store_setex k ttl v now s =
     (if ttl \<le> 0 then Inl ResponseError
      else Inr ((), s(k \<mapsto> Entry v (Some (now + ttl)))))"

definition store_delete :: "string \<Rightarrow> rat \<Rightarrow> store \<Rightarrow> error + unit \<times> store" where
  "store_delete k now s = Inr ((), s(k := None))"

definition store_incr :: "string \<Rightarrow> rat \<Rightarrow> store \<Rightarrow> error + int \<times> store" where
  "store_incr k now s =
     (case live s now k of
        None \<Rightarrow> Inr (1, s(k \<mapsto> Entry (RInt 1) None))
      | Some v \<Rightarrow>
          (case v of
             RInt n \<Rightarrow> Inr (n + 1, s(k \<mapsto> Entry (RInt (n + 1)) (kept_expiry s k)))
           | _ \<Rightarrow> Inl ResponseError))"

text \<open>\<^verbatim>\<open>EXPIRE\<close> sets the time to live of a key that exists, whatever it was before;
  a time to live that is not positive deletes the key.\<close>

definition store_expire :: "string \<Rightarrow> rat \<Rightarrow> rat \<Rightarrow> store \<Rightarrow> error + unit \<times> store" where
  "store_expire k ttl now s =
     (case live s now k of
        None \<Rightarrow> Inr ((), s)
      | Some v \<Rightarrow>
          (if ttl \<le> 0 then Inr ((), s(k := None))
           else Inr ((), s(k \<mapsto> Entry v (Some (now + ttl))))))"

definition zset_put :: "rat \<Rightarrow> rat \<Rightarrow> (rat \<times> rat) list \<Rightarrow> (rat \<times> rat) list" where
  "zset_put member score z = filter (\<lambda>(m, sc). m \<noteq> member) z @ [(member, score)]"

definition store_zadd :: "string \<Rightarrow> rat \<Rightarrow> rat \<Rightarrow> rat \<Rightarrow> store \<Rightarrow> error + unit \<times> store" where
  "store_zadd k member score now s =
     (case live s now k of
        None \<Rightarrow> Inr ((), s(k \<mapsto> Entry (RZSet [(member, score)]) None))
      | Some v \<Rightarrow>
          (case v of
             RZSet z \<Rightarrow> Inr ((), s(k \<mapsto> Entry (RZSet (zset_put member score z)) (kept_expiry s k)))
           | _ \<Rightarrow> Inl ResponseError))"

text \<open>\<^verbatim>\<open>ZREMRANGEBYSCORE key lo hi\<close> removes the members whose score lies in
  \<open>[lo, hi]\<close>; a set left empty is deleted with its key.\<close>

definition store_zremrangebyscore ::
  "string \<Rightarrow> rat \<Rightarrow> rat \<Rightarrow> rat \<Rightarrow> store \<Rightarrow> error + unit \<times> store" where
  "store_zremrangebyscore k lo hi now s =
     (case live s now k of
        None \<Rightarrow> Inr ((), s)
      | Some v \<Rightarrow>
          (case v of
             RZSet z \<Rightarrow>
               (let z' = filter (\<lambda>(m, sc). \<not> (lo \<le> sc \<and> sc \<le> hi)) z
                in if z' = [] then Inr ((), s(k := None))
                   else Inr ((), s(k \<mapsto> Entry (RZSet z') (kept_expiry s k))))
           | _ \<Rightarrow> Inl ResponseError))"

text \<open>\<^verbatim>\<open>ZRANGE key 0 -1 WITHSCORES\<close>: every member with its score.\<close>

definition store_zrange_all ::
  "string \<Rightarrow> rat \<Rightarrow> store \<Rightarrow> error + (rat \<times> rat) list \<times> store" where
  "store_zrange_all k now s =
     (case live s now k of
        None \<Rightarrow> Inr ([], s)
      | Some v \<Rightarrow> (case v of RZSet z \<Rightarrow> Inr (z, s) | _ \<Rightarrow> Inl ResponseError))"

definition store_lpush ::
  "string \<Rightarrow> rat \<times> string \<times> rat \<Rightarrow> rat \<Rightarrow> store \<Rightarrow> error + unit \<times> store" where
  "store_lpush k x now s =
     (case live s now k of
        None \<Rightarrow> Inr ((), s(k \<mapsto> Entry (RList [x]) None))
      | Some v \<Rightarrow>
          (case v of
             RList l \<Rightarrow> Inr ((), s(k \<mapsto> Entry (RList (x # l)) (kept_expiry s k)))
           | _ \<Rightarrow> Inl ResponseError))"

text \<open>\<^verbatim>\<open>LTRIM key 0 stop\<close> keeps the first \<open>stop + 1\<close> elements.\<close>

definition store_ltrim_head :: "string \<Rightarrow> nat \<Rightarrow> rat \<Rightarrow> store \<Rightarrow> error + unit \<times> store" where
  "store_ltrim_head k stop now s =
     (case live s now k of
        None \<Rightarrow> Inr ((), s)
      | Some v \<Rightarrow>
          (case v of
             RList l \<Rightarrow> Inr ((), s(k \<mapsto> Entry (RList (take (Suc stop) l)) (kept_expiry s k)))
           | _ \<Rightarrow> Inl ResponseError))"

subsection \<open>The gateway's world: store, connection faults, request log\<close>

text \<open>
  \<^verbatim>\<open>log_request\<close> (\<^verbatim>\<open>src/utils/logging.py\<close>) writes one JSON line per call; the
  optional fields are present when the argument is not \<^verbatim>\<open>None\<close> (for the error: when
  it is a non-empty text).
\<close>

record log_record =
  log_timestamp :: rat
  log_session_id :: string
  log_model :: string
  log_estimated_cost :: rat
  log_decision :: string
  log_input_tokens :: "json option"
  log_output_tokens :: "json option"
  log_actual_cost :: "rat option"
  log_error :: "string option"

text \<open>
  \<open>faults\<close> is the plan of the connection: one entry is consumed by each round trip to
  the store, \<open>True\<close> meaning that this round trip fails with a connection error; when the
  plan is used up the store answers every command.
\<close>

record world =
  kv :: store
  faults :: "bool list"
  logged :: "log_record list"

type_synonym 'a io = "world \<Rightarrow> (error + 'a) \<times> world"

definition io_return :: "'a \<Rightarrow> 'a io" where
  "io_return x w = (Inr x, w)"

definition io_raise :: "error \<Rightarrow> 'a io" where
  "io_raise e w = (Inl e, w)"

definition io_bind :: "'a io \<Rightarrow> ('a \<Rightarrow> 'b io) \<Rightarrow> 'b io" where
  "io_bind m f w = (case m w of (Inl e, w') \<Rightarrow> (Inl e, w') | (Inr x, w') \<Rightarrow> f x w')"

text \<open>\<^verbatim>\<open>try: m except Exception as e: h(e)\<close>.\<close>

definition io_try :: "'a io \<Rightarrow> (error \<Rightarrow> 'a io) \<Rightarrow> 'a io" where
  "io_try m h w = (case m w of (Inl e, w') \<Rightarrow> h e w' | (Inr x, w') \<Rightarrow> (Inr x, w'))"

text \<open>A pure computation that may raise, run inside the gateway.\<close>

definition io_of :: "error + 'a \<Rightarrow> 'a io" where
  "io_of r w = (case r of Inl e \<Rightarrow> (Inl e, w) | Inr x \<Rightarrow> (Inr x, w))"

definition run_on_store :: "(store \<Rightarrow> error + 'a \<times> store) \<Rightarrow> 'a io" where
  "run_on_store f w =
     (case f (kv w) of Inl e \<Rightarrow> (Inl e, w) | Inr (x, s') \<Rightarrow> (Inr x, w\<lparr>kv := s'\<rparr>))"

text \<open>One round trip: \<^verbatim>\<open>self.redis.client.<command>(...)\<close>, or one \<^verbatim>\<open>pipe.execute()\<close>.\<close>

definition command :: "(store \<Rightarrow> error + 'a \<times> store) \<Rightarrow> 'a io" where
  "command f w =
     (case faults w of
        [] \<Rightarrow> run_on_store f w
      | b # fs \<Rightarrow>
          (if b then (Inl ConnectionError, w\<lparr>faults := fs\<rparr>)
           else run_on_store f (w\<lparr>faults := fs\<rparr>)))"

definition redis_get :: "string \<Rightarrow> rat \<Rightarrow> rvalue option io" where
  "redis_get k now = command (store_get k now)"

definition redis_set :: "string \<Rightarrow> rvalue \<Rightarrow> rat \<Rightarrow> unit io" where
  "redis_set k v now = command (store_set k v now)"

definition redis_setex :: "string \<Rightarrow> rat \<Rightarrow> rvalue \<Rightarrow> rat \<Rightarrow> unit io" where
  "redis_setex k ttl v now = command (store_setex k ttl v now)"

definition redis_delete :: "string \<Rightarrow> rat \<Rightarrow> unit io" where
  "redis_delete k now = command (store_delete k now)"

definition redis_incr :: "string \<Rightarrow> rat \<Rightarrow> int io" where
  "redis_incr k now = command (store_incr k now)"

definition redis_expire :: "string \<Rightarrow> rat \<Rightarrow> rat \<Rightarrow> unit io" where
  "redis_expire k ttl now = command (store_expire k ttl now)"

definition redis_zadd :: "string \<Rightarrow> rat \<Rightarrow> rat \<Rightarrow> rat \<Rightarrow> unit io" where
  "redis_zadd k member score now = command (store_zadd k member score now)"

definition redis_zremrangebyscore :: "string \<Rightarrow> rat \<Rightarrow> rat \<Rightarrow> rat \<Rightarrow> unit io" where
  "redis_zremrangebyscore k lo hi now = command (store_zremrangebyscore k lo hi now)"

definition redis_zrange_all :: "string \<Rightarrow> rat \<Rightarrow> (rat \<times> rat) list io" where
  "redis_zrange_all k now = command (store_zrange_all k now)"

definition redis_lpush :: "string \<Rightarrow> rat \<times> string \<times> rat \<Rightarrow> rat \<Rightarrow> unit io" where
  "redis_lpush k x now = command (store_lpush k x now)"

definition redis_ltrim_head :: "string \<Rightarrow> nat \<Rightarrow> rat \<Rightarrow> unit io" where
  "redis_ltrim_head k stop now = command (store_ltrim_head k stop now)"

text \<open>
  A pipeline queues commands and \<^verbatim>\<open>pipe.execute()\<close> sends them in one round trip, as
  one transaction. The two pipelines of the budget manager: the pair of reads, and the
  writes of \<^verbatim>\<open>deduct_cost\<close> (the budget only when it was queued).
\<close>

definition store_get2 ::
  "string \<Rightarrow> string \<Rightarrow> rat \<Rightarrow> store \<Rightarrow> error + (rvalue option \<times> rvalue option) \<times> store" where
  "store_get2 k1 k2 now s =
     (case store_get k1 now s of
        Inl e \<Rightarrow> Inl e
      | Inr (v1, s1) \<Rightarrow>
          (case store_get k2 now s1 of
             Inl e \<Rightarrow> Inl e
           | Inr (v2, s2) \<Rightarrow> Inr ((v1, v2), s2)))"

definition store_set_queued ::
  "(string \<times> rvalue) list \<Rightarrow> rat \<Rightarrow> store \<Rightarrow> error + unit \<times> store" where
  "store_set_queued q now s = Inr ((), fold (\<lambda>(k, v) s'. s'(k \<mapsto> Entry v None)) q s)"

definition store_delete_queued :: "string list \<Rightarrow> rat \<Rightarrow> store \<Rightarrow> error + unit \<times> store" where
  "store_delete_queued q now s = Inr ((), fold (\<lambda>k s'. s'(k := None)) q s)"

subsection \<open>Budget manager (\<^verbatim>\<open>src/budget/manager.py\<close>)\<close>

text \<open>\<^verbatim>\<open>settings\<close> (\<^verbatim>\<open>src/config/settings.py\<close>): the fields the engine reads.\<close>

record settings =
  default_budget :: rat
  strict_mode :: bool

definition default_settings :: settings where
  "default_settings = \<lparr>default_budget = 10, strict_mode = False\<rparr>"

definition get_budget_key :: "string \<Rightarrow> string" where
  "get_budget_key session_id = ''session:'' @ session_id @ '':budget''"

definition get_spent_key :: "string \<Rightarrow> string" where
  "get_spent_key session_id = ''session:'' @ session_id @ '':spent''"

text \<open>\<^verbatim>\<open>Decimal(str(value))\<close> of a reply, and \<^verbatim>\<open>float(value)\<close>: both read a number
  literal and raise on any other text.\<close>

definition to_decimal :: "rvalue \<Rightarrow> error + rat" where
  "to_decimal v =
     (case v of RDec d \<Rightarrow> Inr d | RInt i \<Rightarrow> Inr (of_int i) | _ \<Rightarrow> Inl InvalidOperation)"

definition py_float :: "rvalue \<Rightarrow> error + rat" where
  "py_float v =
     (case v of RDec d \<Rightarrow> Inr d | RInt i \<Rightarrow> Inr (of_int i) | _ \<Rightarrow> Inl ValueError)"

definition set_budget :: "string \<Rightarrow> rat \<Rightarrow> rat \<Rightarrow> bool io" where
  "set_budget session_id amount now =
     io_try
       (io_bind (redis_set (get_budget_key session_id) (RDec amount) now) (\<lambda>_.
        io_return True))
       (\<lambda>e. io_raise (RuntimeError (''Failed to set budget for session '' @ session_id @ '': '') e))"

definition get_budget :: "string \<Rightarrow> rat \<Rightarrow> rat option io" where
  "get_budget session_id now =
     io_try
       (io_bind (redis_get (get_budget_key session_id) now) (\<lambda>reply.
          case reply of
            None \<Rightarrow> io_return None
          | Some v \<Rightarrow> io_bind (io_of (py_float v)) (\<lambda>x. io_return (Some x))))
       (\<lambda>e. io_return None)"

definition get_spent :: "string \<Rightarrow> rat \<Rightarrow> rat io" where
  "get_spent session_id now =
     io_try
       (io_bind (redis_get (get_spent_key session_id) now) (\<lambda>reply.
          case reply of
            None \<Rightarrow> io_return 0
          | Some v \<Rightarrow> io_of (py_float v)))
       (\<lambda>e. io_return 0)"

text \<open>The dict \<^verbatim>\<open>{"budget": .., "spent": .., "remaining": ..}\<close>.\<close>

definition get_budget_info :: "settings \<Rightarrow> string \<Rightarrow> rat \<Rightarrow> (string \<times> rat) list io" where
  "get_budget_info cfg session_id now =
     io_bind (get_budget session_id now) (\<lambda>b.
       let budget = (case b of None \<Rightarrow> default_budget cfg | Some x \<Rightarrow> x) in
     io_bind (get_spent session_id now) (\<lambda>spent.
       let remaining = budget - spent in
       io_return [(''budget'', budget), (''spent'', spent), (''remaining'', max 0 remaining)]))"

definition check_budget :: "settings \<Rightarrow> string \<Rightarrow> rat \<Rightarrow> rat \<Rightarrow> bool io" where
  "check_budget cfg session_id estimated_cost now =
     io_try
       (io_bind (redis_get (get_budget_key session_id) now) (\<lambda>reply.
        io_bind (case reply of
                   None \<Rightarrow>
                     io_bind (redis_set (get_budget_key session_id) (RDec (default_budget cfg)) now)
                       (\<lambda>_. io_return (RDec (default_budget cfg)))
                 | Some v \<Rightarrow> io_return v) (\<lambda>budget_value.
        io_bind (redis_get (get_spent_key session_id) now) (\<lambda>reply2.
          let spent_value = (case reply2 of None \<Rightarrow> RDec 0 | Some v \<Rightarrow> v) in
        io_bind (io_of (to_decimal budget_value)) (\<lambda>budget.
        io_bind (io_of (to_decimal spent_value)) (\<lambda>spent.
        io_bind (io_of (to_decimal (RDec estimated_cost))) (\<lambda>estimated.
          let remaining = budget - spent in
          io_return (estimated \<le> remaining))))))))
       (\<lambda>e. io_raise (RuntimeError (''Failed to check budget for session '' @ session_id @ '': '') e))"

definition deduct_cost :: "settings \<Rightarrow> string \<Rightarrow> rat \<Rightarrow> rat \<Rightarrow> rat io" where
  "deduct_cost cfg session_id actual_cost now =
     io_try
       (io_bind (command (store_get2 (get_budget_key session_id) (get_spent_key session_id) now))
          (\<lambda>(reply, reply2).
          let queued = (case reply of
                          None \<Rightarrow> [(get_budget_key session_id, RDec (default_budget cfg))]
                        | Some _ \<Rightarrow> []);
              budget_value = (case reply of None \<Rightarrow> RDec (default_budget cfg) | Some v \<Rightarrow> v);
              spent_value = (case reply2 of None \<Rightarrow> RDec 0 | Some v \<Rightarrow> v) in
        io_bind (io_of (to_decimal budget_value)) (\<lambda>budget.
        io_bind (io_of (to_decimal spent_value)) (\<lambda>spent.
        io_bind (io_of (to_decimal (RDec actual_cost))) (\<lambda>cost.
          let new_spent = spent + cost;
              remaining = budget - new_spent in
        io_bind (command (store_set_queued
                   (queued @ [(get_spent_key session_id, RDec new_spent)]) now)) (\<lambda>_.
          io_return (max 0 remaining)))))))
       (\<lambda>e. io_raise (RuntimeError (''Failed to deduct cost for session '' @ session_id @ '': '') e))"

definition reset_session :: "string \<Rightarrow> rat \<Rightarrow> bool io" where
  "reset_session session_id now =
     io_try
       (io_bind (command (store_delete_queued
                   [get_budget_key session_id, get_spent_key session_id] now)) (\<lambda>_.
        io_return True))
       (\<lambda>e. io_raise (RuntimeError (''Failed to reset session '' @ session_id @ '': '') e))"

subsection \<open>Anomaly detector (\<^verbatim>\<open>src/anomaly/detector.py\<close>)\<close>

record detector =
  max_requests_per_minute :: int
  max_identical_requests :: int
  velocity_threshold :: rat
  freeze_duration_seconds :: rat

text \<open>\<^verbatim>\<open>AnomalyDetector.__init__\<close>: the configured thresholds.\<close>

definition new_detector :: detector where
  "new_detector =
     \<lparr>max_requests_per_minute = 100, max_identical_requests = 3,
      velocity_threshold = 1, freeze_duration_seconds = 300\<rparr>"

text \<open>
  \<^verbatim>\<open>_get_request_hash\<close> is the MD5 digest of the JSON text of
  \<^verbatim>\<open>{"model": model, "messages": json.dumps(messages) if messages else "", "max_tokens": max_tokens}\<close>
  with sorted keys. The digest of that text is the parameter \<open>digest\<close>, a function of
  the three fields; a \<^verbatim>\<open>messages\<close> that is not truthy enters as the empty list.
\<close>

type_synonym digest = "string \<Rightarrow> string list \<Rightarrow> int option \<Rightarrow> string"

definition get_request_hash :: "digest \<Rightarrow> string \<Rightarrow> messages \<Rightarrow> int option \<Rightarrow> string" where
  "get_request_hash dg model msgs max_tokens =
     dg model (if truthy_messages msgs then the msgs else []) max_tokens"

text \<open>\<^verbatim>\<open>_get_keys\<close>, and the reason key that the freeze functions spell out.\<close>

definition request_count_key :: "string \<Rightarrow> string" where
  "request_count_key session_id = ''anomaly:'' @ session_id @ '':requests:1min''"

definition request_history_key :: "string \<Rightarrow> string" where
  "request_history_key session_id = ''anomaly:'' @ session_id @ '':history''"

definition last_request_hash_key :: "string \<Rightarrow> string" where
  "last_request_hash_key session_id = ''anomaly:'' @ session_id @ '':last_hash''"

definition identical_count_key :: "string \<Rightarrow> string" where
  "identical_count_key session_id = ''anomaly:'' @ session_id @ '':identical_count''"

definition spend_velocity_key :: "string \<Rightarrow> string" where
  "spend_velocity_key session_id = ''anomaly:'' @ session_id @ '':velocity''"

definition frozen_until_key :: "string \<Rightarrow> string" where
  "frozen_until_key session_id = ''anomaly:'' @ session_id @ '':frozen_until''"

definition freeze_reason_key :: "string \<Rightarrow> string" where
  "freeze_reason_key session_id = ''anomaly:'' @ session_id @ '':freeze_reason''"

text \<open>The truth value of a reply (\<^verbatim>\<open>if frozen_until:\<close>): \<^verbatim>\<open>None\<close> and the empty text
  are false.\<close>

definition truthy_reply :: "rvalue option \<Rightarrow> bool" where
  "truthy_reply r = (case r of None \<Rightarrow> False | Some v \<Rightarrow> v \<noteq> RStr [])"

definition fromisoformat :: "rvalue \<Rightarrow> error + rat" where
  "fromisoformat v = (case v of RTime t \<Rightarrow> Inr t | _ \<Rightarrow> Inl ValueError)"

text \<open>
  \<^verbatim>\<open>f"{reply}"\<close>. The text of a decimal or of a timestamp is not kept by the model, a
  fraction stands for it; neither is ever written under the reason key.
\<close>

definition str_rat :: "rat \<Rightarrow> string" where
  "str_rat x = (case quotient_of x of (n, d) \<Rightarrow> str_int n @ ''/'' @ str_int d)"

definition reply_text :: "rvalue option \<Rightarrow> string" where
  "reply_text r =
     (case r of
        None \<Rightarrow> ''None''
      | Some v \<Rightarrow>
          (case v of
             RStr t \<Rightarrow> t
           | RInt i \<Rightarrow> str_int i
           | RDec d \<Rightarrow> str_rat d
           | RTime t \<Rightarrow> str_rat t
           | _ \<Rightarrow> []))"

definition unfreeze_session :: "string \<Rightarrow> rat \<Rightarrow> unit io" where
  "unfreeze_session session_id now =
     io_bind (redis_delete (frozen_until_key session_id) now) (\<lambda>_.
     redis_delete (freeze_reason_key session_id) now)"

definition freeze_session :: "detector \<Rightarrow> string \<Rightarrow> string \<Rightarrow> rat \<Rightarrow> unit io" where
  "freeze_session det session_id reason now =
     (let frozen_until = now + freeze_duration_seconds det in
      io_bind (redis_setex (frozen_until_key session_id) (freeze_duration_seconds det)
                 (RTime frozen_until) now) (\<lambda>_.
      redis_setex (freeze_reason_key session_id) (freeze_duration_seconds det)
        (RStr reason) now))"

definition is_session_frozen :: "string \<Rightarrow> rat \<Rightarrow> (bool \<times> rvalue option) io" where
  "is_session_frozen session_id now =
     io_bind (redis_get (frozen_until_key session_id) now) (\<lambda>frozen_until.
       if truthy_reply frozen_until then
         io_bind (io_of (fromisoformat (the frozen_until))) (\<lambda>frozen_time.
           if now < frozen_time then
             io_bind (redis_get (freeze_reason_key session_id) now) (\<lambda>reason.
             io_return (True, reason))
           else
             io_bind (unfreeze_session session_id now) (\<lambda>_.
             io_return (False, None)))
       else io_return (False, None))"

definition log_anomaly_request :: "string \<Rightarrow> string \<Rightarrow> rat \<Rightarrow> rat \<Rightarrow> unit io" where
  "log_anomaly_request session_id model cost now =
     io_bind (redis_lpush (request_history_key session_id) (now, model, cost) now) (\<lambda>_.
     io_bind (redis_ltrim_head (request_history_key session_id) 99 now) (\<lambda>_.
     redis_expire (request_history_key session_id) 3600 now))"

text \<open>
  \<^verbatim>\<open>check_anomalies\<close> returns from inside its branches. The model follows it in three
  parts, each the rest of the function from a point on: \<open>check_velocity\<close> from the update
  of the stored hash (the line after check 2) to the end, \<open>check_identical\<close> from check
  2 on, \<open>check_anomalies\<close> the whole.
\<close>

definition check_velocity ::
  "detector \<Rightarrow> string \<Rightarrow> string \<Rightarrow> string \<Rightarrow> rat \<Rightarrow> rat \<Rightarrow> (bool \<times> string option) io" where
  "check_velocity det session_id model request_hash estimated_cost now =
     io_bind (redis_setex (last_request_hash_key session_id) 300 (RStr request_hash) now) (\<lambda>_.
       let timestamp = now; velocity_key = spend_velocity_key session_id in
     io_bind (redis_zadd velocity_key timestamp estimated_cost now) (\<lambda>_.
       let one_minute_ago = now - 60 in
     io_bind (redis_zremrangebyscore velocity_key 0 one_minute_ago now) (\<lambda>_.
     io_bind (redis_zrange_all velocity_key now) (\<lambda>recent_costs.
       let total_cost_per_minute = sum_list (map snd recent_costs) in
       if velocity_threshold det < total_cost_per_minute then
         io_bind (freeze_session det session_id
                    (''High spending velocity: $'' @ format_4f total_cost_per_minute @ ''/minute'')
                    now) (\<lambda>_.
         io_return (True,
           Some (''High spending velocity: $'' @ format_4f total_cost_per_minute @ ''/minute'')))
       else
         io_bind (redis_expire velocity_key 120 now) (\<lambda>_.
         io_bind (log_anomaly_request session_id model estimated_cost now) (\<lambda>_.
         io_return (False, None)))))))"

definition check_identical ::
  "digest \<Rightarrow> detector \<Rightarrow> string \<Rightarrow> string \<Rightarrow> messages \<Rightarrow> int option \<Rightarrow> rat \<Rightarrow> rat
     \<Rightarrow> (bool \<times> string option) io" where
  "check_identical dg det session_id model msgs max_tokens estimated_cost now =
     (let request_hash = get_request_hash dg model msgs max_tokens in
      io_bind (redis_get (last_request_hash_key session_id) now) (\<lambda>last_hash.
        if last_hash = Some (RStr request_hash) then
          io_bind (redis_incr (identical_count_key session_id) now) (\<lambda>identical_count.
          io_bind (redis_expire (identical_count_key session_id) 300 now) (\<lambda>_.
            if max_identical_requests det \<le> identical_count then
              io_bind (freeze_session det session_id
                         (''Loop detected: '' @ str_int identical_count
                            @ '' identical consecutive requests'') now) (\<lambda>_.
              io_return
                (True,
                 Some (''Loop detected: '' @ str_int identical_count @ '' identical requests'')))
            else check_velocity det session_id model request_hash estimated_cost now))
        else
          io_bind (redis_delete (identical_count_key session_id) now) (\<lambda>_.
          check_velocity det session_id model request_hash estimated_cost now)))"

definition check_anomalies ::
  "digest \<Rightarrow> detector \<Rightarrow> string \<Rightarrow> string \<Rightarrow> messages \<Rightarrow> int option \<Rightarrow> rat \<Rightarrow> rat
     \<Rightarrow> (bool \<times> string option) io" where
  "check_anomalies dg det session_id model msgs max_tokens estimated_cost now =
     io_bind (is_session_frozen session_id now) (\<lambda>(is_frozen, freeze_reason).
       if is_frozen then
         io_return (True, Some (''Session frozen: '' @ reply_text freeze_reason))
       else
         io_bind (redis_incr (request_count_key session_id) now) (\<lambda>request_count.
         io_bind (redis_expire (request_count_key session_id) 60 now) (\<lambda>_.
           if max_requests_per_minute det < request_count then
             io_bind (freeze_session det session_id
                        (''Exceeded rate limit: '' @ str_int request_count @ '' requests/minute'')
                        now) (\<lambda>_.
             io_return (True,
               Some (''Rate limit exceeded: '' @ str_int request_count @ '' requests in 1 minute'')))
           else
             check_identical dg det session_id model msgs max_tokens estimated_cost now)))"

subsection \<open>Actual cost (\<^verbatim>\<open>CostCalculator.calculate_actual_cost\<close>)\<close>

text \<open>\<^verbatim>\<open>x / 1000.0\<close> on a value read from JSON: a \<^verbatim>\<open>float\<close> divides, an \<^verbatim>\<open>int\<close> is
  converted first and raises \<^verbatim>\<open>OverflowError\<close> when it does not fit (a boolean is an
  integer in Python), anything else raises \<^verbatim>\<open>TypeError\<close>.\<close>

definition per_thousand :: "json \<Rightarrow> error + rat" where
  "per_thousand j =
     (case j of
        JInt n \<Rightarrow> (case float_of_int n of Inl e \<Rightarrow> Inl e | Inr x \<Rightarrow> Inr (x / 1000))
      | JNum x \<Rightarrow> Inr (x / 1000)
      | JBool b \<Rightarrow> Inr ((if b then 1 else 0) / 1000)
      | _ \<Rightarrow> Inl TypeError)"

definition calculate_actual_cost ::
  "price_table \<Rightarrow> string \<Rightarrow> (string \<times> json) list \<Rightarrow> error + rat" where
  "calculate_actual_cost prices model usage =
     (case pricing_or_fallback prices model of
        Inl e \<Rightarrow> Inl e
      | Inr pricing \<Rightarrow>
          (let input_price_per_1k = dict_get pricing ''input'' 0;
               output_price_per_1k = dict_get pricing ''output'' 0;
               prompt_tokens = dict_get usage ''prompt_tokens'' (JInt 0);
               completion_tokens = dict_get usage ''completion_tokens'' (JInt 0)
           in case per_thousand prompt_tokens of
                Inl e \<Rightarrow> Inl e
              | Inr i \<Rightarrow>
                  (case per_thousand completion_tokens of
                     Inl e \<Rightarrow> Inl e
                   | Inr out \<Rightarrow> Inr (i * input_price_per_1k + out * output_price_per_1k))))"

subsection \<open>Upstream forwarder (\<^verbatim>\<open>src/proxy/forwarder.py\<close>)\<close>

text \<open>
  What the HTTP client did with the forwarded request is an input of the model: a
  response (status, the body as parsed JSON object or \<open>None\<close> when it is not JSON, the
  raw text, the headers), or one of the exceptions \<^verbatim>\<open>forward_request\<close> catches, with
  its text.
\<close>

datatype http_outcome =
    Responded int "(string \<times> json) list option" string "(string \<times> string) list"
  | TimeoutException
  | RequestError string
  | OtherException string

definition error_body :: "string \<Rightarrow> string \<Rightarrow> (string \<times> json) list" where
  "error_body msg kind = [(''error'', JObj [(''message'', JStr msg), (''type'', JStr kind)])]"

fun forward_request ::
  "http_outcome \<Rightarrow> int \<times> (string \<times> json) list \<times> (string \<times> string) list" where
  "forward_request (Responded status_code parsed raw response_headers) =
     (status_code,
      (case parsed of
         Some response_body \<Rightarrow> response_body
       | None \<Rightarrow> [(''error'', JObj [(''message'', JStr raw)])]),
      response_headers)"
| "forward_request TimeoutException =
     (504, error_body ''Request timeout while forwarding to OpenAI'' ''timeout_error'', [])"
| "forward_request (RequestError e) =
     (502, error_body (''Failed to forward request to OpenAI: '' @ e) ''connection_error'', [])"
| "forward_request (OtherException e) =
     (500, error_body (''Unexpected error: '' @ e) ''internal_error'', [])"

subsection \<open>Request helpers (\<^verbatim>\<open>src/utils/validators.py\<close>, \<^verbatim>\<open>src/utils/logging.py\<close>)\<close>

text \<open>\<^verbatim>\<open>a or b\<close> on optional texts: \<^verbatim>\<open>None\<close> and the empty text are false.\<close>

definition truthy_text :: "string option \<Rightarrow> bool" where
  "truthy_text t = (case t of None \<Rightarrow> False | Some x \<Rightarrow> x \<noteq> [])"

definition py_or :: "string option \<Rightarrow> string option \<Rightarrow> string option" where
  "py_or a b = (if truthy_text a then a else b)"

definition extract_session_id ::
  "(string \<times> string) list \<Rightarrow> (string \<times> string) list \<Rightarrow> bool \<Rightarrow> string option" where
  "extract_session_id hdrs query_params strict =
     (let session_id = py_or (map_of hdrs ''X-Session-ID'') (map_of hdrs ''x-session-id'');
          session_id = (if \<not> truthy_text session_id then map_of query_params ''session_id''
                        else session_id)
      in if strict \<and> \<not> truthy_text session_id then None
         else py_or session_id (Some ''default''))"

definition log_request ::
  "string \<Rightarrow> string \<Rightarrow> rat \<Rightarrow> string \<Rightarrow> json option \<Rightarrow> json option \<Rightarrow> rat option
     \<Rightarrow> string option \<Rightarrow> rat \<Rightarrow> unit io" where
  "log_request session_id model estimated_cost decision input_tokens output_tokens
     actual_cost err now w =
     (Inr (),
      w\<lparr>logged := logged w @
         [\<lparr>log_timestamp = now, log_session_id = session_id, log_model = model,
           log_estimated_cost = estimated_cost, log_decision = decision,
           log_input_tokens = input_tokens, log_output_tokens = output_tokens,
           log_actual_cost = actual_cost,
           log_error = (if truthy_text err then err else None)\<rparr>]\<rparr>)"

subsection \<open>Admission pipeline (\<^verbatim>\<open>process_request\<close> in \<^verbatim>\<open>src/proxy/router.py\<close>)\<close>

text \<open>
  The model starts where the body has been parsed and validated: a request is its
  headers, its query parameters and the three fields of the body that the pipeline
  reads. A response is what \<^verbatim>\<open>JSONResponse\<close> is built from.
\<close>

record request =
  req_headers :: "(string \<times> string) list"
  req_query :: "(string \<times> string) list"
  body_model :: "string option"
  body_messages :: messages
  body_max_tokens :: "int option"

record response =
  status_code :: int
  content :: json
  headers :: "(string \<times> string) list"

definition json_response :: "int \<Rightarrow> json \<Rightarrow> response" where
  "json_response code body = \<lparr>status_code = code, content = body, headers = []\<rparr>"

text \<open>\<^verbatim>\<open>key.lower()\<close> on the ASCII letters a header name is made of.\<close>

definition lower_char :: "char \<Rightarrow> char" where
  "lower_char c =
     (case map_of (zip ''ABCDEFGHIJKLMNOPQRSTUVWXYZ'' ''abcdefghijklmnopqrstuvwxyz'') c of
        Some l \<Rightarrow> l
      | None \<Rightarrow> c)"

definition preserved_headers :: "(string \<times> string) list \<Rightarrow> (string \<times> string) list" where
  "preserved_headers hs =
     filter (\<lambda>(k, v). map lower_char k \<in> set [''content-type'', ''x-request-id'']) hs"

definition opt_json :: "string option \<Rightarrow> json" where
  "opt_json t = (case t of None \<Rightarrow> JNull | Some x \<Rightarrow> JStr x)"

definition opt_text :: "string option \<Rightarrow> string" where
  "opt_text t = (case t of None \<Rightarrow> ''None'' | Some x \<Rightarrow> x)"

definition budget_info_json :: "(string \<times> rat) list \<Rightarrow> json" where
  "budget_info_json info = JObj (map (\<lambda>(k, v). (k, JNum v)) info)"

text \<open>Lines 165 to 187: the actual cost and the token counts of a successful response.
  The two \<^verbatim>\<open>usage.get\<close> calls stand before the \<^verbatim>\<open>try\<close>: a \<^verbatim>\<open>usage\<close> that is not an
  object raises \<^verbatim>\<open>AttributeError\<close> out of the pipeline.\<close>

definition settle_usage ::
  "price_table \<Rightarrow> string \<Rightarrow> string \<Rightarrow> rat \<Rightarrow> int \<Rightarrow> (string \<times> json) list \<Rightarrow> rat
     \<Rightarrow> (rat \<times> json option \<times> json option) io" where
  "settle_usage prices session_id model estimated_cost status response_body later =
     (if status = 200 \<and> map_of response_body ''usage'' \<noteq> None then
        (case the (map_of response_body ''usage'') of
           JObj usage \<Rightarrow>
             (let input_tokens = dict_get usage ''prompt_tokens'' (JInt 0);
                  output_tokens = dict_get usage ''completion_tokens'' (JInt 0)
              in io_try
                   (io_bind (io_of (calculate_actual_cost prices model usage)) (\<lambda>actual_cost.
                    io_return (actual_cost, Some input_tokens, Some output_tokens)))
                   (\<lambda>e.
                    io_bind (log_request session_id model estimated_cost ''allowed''
                               (Some input_tokens) (Some output_tokens) None
                               (Some (''Failed to calculate actual cost: '' @ str_error e)) later)
                      (\<lambda>_. io_return (0, Some input_tokens, Some output_tokens))))
         | _ \<Rightarrow> io_raise AttributeError)
      else io_return (0, None, None))"

text \<open>Lines 189 to 204: the deduction, only for a successful response with a positive
  actual cost.\<close>

definition settle_deduct ::
  "settings \<Rightarrow> string \<Rightarrow> string \<Rightarrow> rat \<Rightarrow> int \<Rightarrow> rat \<Rightarrow> json option \<Rightarrow> json option \<Rightarrow> rat
     \<Rightarrow> unit io" where
  "settle_deduct cfg session_id model estimated_cost status actual_cost input_tokens
     output_tokens later =
     (if status = 200 \<and> 0 < actual_cost then
        io_try
          (io_bind (deduct_cost cfg session_id actual_cost later) (\<lambda>_. io_return ()))
          (\<lambda>e. log_request session_id model estimated_cost ''allowed'' input_tokens
                  output_tokens (Some actual_cost)
                  (Some (''Failed to deduct cost: '' @ str_error e)) later)
      else io_return ())"

text \<open>Lines 157 to 229: from the forwarded call to the returned response.\<close>

definition forward_and_settle ::
  "settings \<Rightarrow> price_table \<Rightarrow> string \<Rightarrow> string \<Rightarrow> rat \<Rightarrow> http_outcome \<Rightarrow> rat \<Rightarrow> response io" where
  "forward_and_settle cfg prices session_id model estimated_cost outcome later =
     (case forward_request outcome of
        (status, response_body, response_headers) \<Rightarrow>
          io_bind (settle_usage prices session_id model estimated_cost status response_body later)
            (\<lambda>(actual_cost, input_tokens, output_tokens).
          io_bind (settle_deduct cfg session_id model estimated_cost status actual_cost
                     input_tokens output_tokens later) (\<lambda>_.
          io_bind (log_request session_id model estimated_cost
                     (if status = 200 then ''allowed'' else ''error'')
                     input_tokens output_tokens
                     (if status = 200 then Some actual_cost else None) None later) (\<lambda>_.
          io_return
            \<lparr>status_code = status, content = JObj response_body,
             headers = preserved_headers response_headers\<rparr>))))"

text \<open>
  \<^verbatim>\<open>process_request\<close>, lines 56 to 229. \<open>now\<close> is the instant of the admission checks,
  \<open>later\<close> the instant the forwarded call has returned at. An exception that leaves
  \<^verbatim>\<open>process_request\<close> is the \<open>Inl\<close> of the result.
\<close>

definition process_request ::
  "settings \<Rightarrow> price_table \<Rightarrow> detector \<Rightarrow> digest \<Rightarrow> request \<Rightarrow> http_outcome \<Rightarrow> rat \<Rightarrow> rat
     \<Rightarrow> response io" where
  "process_request cfg prices det dg req outcome now later =
     (case extract_session_id (req_headers req) (req_query req) (strict_mode cfg) of
        None \<Rightarrow>
          io_return (json_response 400 (JObj (error_body
            ''session_id is required (X-Session-ID header or session_id query param)''
            ''invalid_request_error'')))
      | Some session_id \<Rightarrow>
          (let model = (case body_model req of None \<Rightarrow> ''unknown'' | Some m \<Rightarrow> m) in
           io_bind (check_anomalies dg det session_id model (body_messages req)
                      (body_max_tokens req) 0 now) (\<lambda>(is_anomalous, anomaly_reason).
             if is_anomalous then
               io_bind (log_request session_id model 0 ''blocked_anomaly'' None None None
                          anomaly_reason now) (\<lambda>_.
               io_return (json_response 429 (JObj
                 [(''error'', JObj
                    [(''message'', JStr (''Request blocked due to anomaly detection: ''
                                          @ opt_text anomaly_reason)),
                     (''type'', JStr ''rate_limit_exceeded''),
                     (''anomaly_reason'', opt_json anomaly_reason)])])))
             else
               (case estimate_cost prices model None (body_max_tokens req) (body_messages req) of
                  Inl e \<Rightarrow>
                    io_bind (log_request session_id model 0 ''error'' None None None
                               (Some (''Failed to estimate cost: '' @ str_error e)) now) (\<lambda>_.
                    io_return (json_response 500 (JObj (error_body
                      (''Failed to estimate cost: '' @ str_error e) ''internal_error''))))
                | Inr estimated_cost \<Rightarrow>
                    io_bind
                      (io_try
                         (io_bind (check_budget cfg session_id estimated_cost now) (\<lambda>has_budget.
                          io_return (Inr has_budget)))
                         (\<lambda>e.
                          io_bind (log_request session_id model estimated_cost ''error'' None None
                                     None (Some (''Budget check failed: '' @ str_error e)) now)
                            (\<lambda>_.
                          io_return (Inl (json_response 503 (JObj (error_body
                            ''Budget service unavailable'' ''service_unavailable'')))))))
                      (\<lambda>checked.
                         case checked of
                           Inl rejected \<Rightarrow> io_return rejected
                         | Inr has_budget \<Rightarrow>
                             if \<not> has_budget then
                               io_bind (log_request session_id model estimated_cost ''blocked''
                                          None None None None now) (\<lambda>_.
                               io_bind (get_budget_info cfg session_id now) (\<lambda>budget_info.
                               io_return (json_response 429 (JObj
                                 [(''error'', JObj
                                    [(''message'', JStr (''Budget exceeded. Remaining: $''
                                        @ format_4f (dict_get budget_info ''remaining'' 0)
                                        @ '', Required: $'' @ format_4f estimated_cost)),
                                     (''type'', JStr ''insufficient_quota''),
                                     (''budget_info'', budget_info_json budget_info)])]))))
                             else
                               forward_and_settle cfg prices session_id model estimated_cost
                                 outcome later)))))"

section \<open>Definitions used to state the properties\<close>

text \<open>A table that registers \<^verbatim>\<open>gpt-4\<close> before \<^verbatim>\<open>gpt-4-turbo\<close>.\<close>

definition turbo_table :: price_table where
  "turbo_table =
     [(''gpt-4'', [(''input'', 3 / 100), (''output'', 6 / 100)]),
      (''gpt-4-turbo'', [(''input'', 1 / 100), (''output'', 3 / 100)])]"

text \<open>
  The token counts of the estimate as the specification words them: the known input
  count, else four times the number of whitespace-delimited words of all messages, else
  1000; the requested maximum of output tokens, else 500. A list of messages that is
  empty counts as no messages.
\<close>

definition spec_input_tokens :: "int option \<Rightarrow> messages \<Rightarrow> int" where
  "spec_input_tokens input_tokens msgs =
     (case input_tokens of
        Some n \<Rightarrow> n
      | None \<Rightarrow>
          (case msgs of
             Some (m # ms) \<Rightarrow> 4 * int (length (concat (map py_split (m # ms))))
           | _ \<Rightarrow> 1000))"

definition spec_output_tokens :: "int option \<Rightarrow> int" where
  "spec_output_tokens max_tokens = (case max_tokens of Some n \<Rightarrow> n | None \<Rightarrow> 500)"

text \<open>The amount a reply stands for: the default when the key is absent, else the
  decimal the stored text denotes.\<close>

definition decimal_or :: "rat \<Rightarrow> rvalue option \<Rightarrow> error + rat" where
  "decimal_or dflt reply = (case reply of None \<Rightarrow> Inr dflt | Some v \<Rightarrow> to_decimal v)"

text \<open>Two worlds with a store that answers: an empty one, and one where session
  \<^verbatim>\<open>s\<close> has a limit of 10 and has spent 6.50.\<close>

definition empty_world :: world where
  "empty_world = \<lparr>kv = (\<lambda>k. None), faults = [], logged = []\<rparr>"

definition funded_world :: world where
  "funded_world =
     \<lparr>kv = (\<lambda>k. None)(get_budget_key ''s'' \<mapsto> Entry (RDec 10) None,
                         get_spent_key ''s'' \<mapsto> Entry (RDec (13 / 2)) None),
      faults = [], logged = []\<rparr>"

text \<open>A key that is absent or holds a decimal text, whatever its time to live; and the
  limit and the spent amount of a session as a read at \<open>now\<close> finds them.\<close>

definition amount_or_absent :: "store \<Rightarrow> string \<Rightarrow> bool" where
  "amount_or_absent s k =
     (case s k of
        None \<Rightarrow> True
      | Some e \<Rightarrow> (case to_decimal (stored e) of Inr _ \<Rightarrow> True | Inl _ \<Rightarrow> False))"

definition limit_at :: "settings \<Rightarrow> string \<Rightarrow> rat \<Rightarrow> store \<Rightarrow> rat" where
  "limit_at cfg session_id now s =
     (case decimal_or (default_budget cfg) (live s now (get_budget_key session_id)) of
        Inr l \<Rightarrow> l
      | Inl _ \<Rightarrow> 0)"

definition spent_at :: "string \<Rightarrow> rat \<Rightarrow> store \<Rightarrow> rat" where
  "spent_at session_id now s =
     (case decimal_or 0 (live s now (get_spent_key session_id)) of
        Inr x \<Rightarrow> x
      | Inl _ \<Rightarrow> 0)"

text \<open>Session \<^verbatim>\<open>s\<close> with a limit of 10 and nothing spent yet.\<close>

definition limit_world :: world where
  "limit_world =
     \<lparr>kv = (\<lambda>k. None)(get_budget_key ''s'' \<mapsto> Entry (RDec 10) None),
      faults = [], logged = []\<rparr>"

text \<open>
  \<open>preserves I P m\<close>: from a world where \<open>I\<close> holds, a run of \<open>m\<close> whose outcome
  satisfies \<open>P\<close> ends in a world where \<open>I\<close> holds. \<open>admitted\<close> are the outcomes of the
  anomaly check that let the request pass, \<open>any_outcome\<close> all outcomes.
\<close>

definition preserves :: "(world \<Rightarrow> bool) \<Rightarrow> (error + 'a \<Rightarrow> bool) \<Rightarrow> 'a io \<Rightarrow> bool" where
  "preserves I P m = (\<forall>w. I w \<longrightarrow> P (fst (m w)) \<longrightarrow> I (snd (m w)))"

definition any_outcome :: "error + 'a \<Rightarrow> bool" where
  "any_outcome r = True"

definition admitted :: "error + bool \<times> string option \<Rightarrow> bool" where
  "admitted r = (case r of Inr (is_anomalous, reason) \<Rightarrow> \<not> is_anomalous | Inl e \<Rightarrow> False)"

text \<open>A command that leaves the entry under a key as it is.\<close>

definition untouched :: "string \<Rightarrow> (store \<Rightarrow> error + 'a \<times> store) \<Rightarrow> bool" where
  "untouched k f = (\<forall>s. case f s of Inl e \<Rightarrow> True | Inr (x, s') \<Rightarrow> s' k = s k)"

text \<open>
  A call of \<open>check_anomalies\<close>: its instant and its arguments. \<open>send\<close> makes one call,
  \<open>send_all\<close> makes the calls of a list one after the other and collects the outcomes.
\<close>

record anomaly_call =
  call_time :: rat
  call_model :: string
  call_messages :: messages
  call_max_tokens :: "int option"
  call_cost :: rat

definition send :: "digest \<Rightarrow> detector \<Rightarrow> string \<Rightarrow> anomaly_call \<Rightarrow> (bool \<times> string option) io" where
  "send dg det session_id c =
     check_anomalies dg det session_id (call_model c) (call_messages c) (call_max_tokens c)
       (call_cost c) (call_time c)"

fun send_all ::
  "digest \<Rightarrow> detector \<Rightarrow> string \<Rightarrow> anomaly_call list \<Rightarrow> world
     \<Rightarrow> (error + bool \<times> string option) list \<times> world" where
  "send_all dg det session_id [] w = ([], w)"
| "send_all dg det session_id (c # cs) w =
     (case send dg det session_id c w of
        (r, w1) \<Rightarrow>
          (case send_all dg det session_id cs w1 of (rs, w2) \<Rightarrow> (r # rs, w2)))"



text \<open>A digest for the scenarios: the text of the three fields, one after the other.\<close>

definition field_digest :: digest where
  "field_digest model msgs max_tokens =
     model @ concat (map (\<lambda>m. CHR ''|'' # m) msgs) @ ''|''
       @ (case max_tokens of None \<Rightarrow> ''null'' | Some i \<Rightarrow> str_int i)"

text \<open>A request for \<open>model\<close> at \<open>t\<close>, with one message, no token maximum and cost zero,
  as the pipeline passes it.\<close>

definition ask :: "string \<Rightarrow> rat \<Rightarrow> anomaly_call" where
  "ask model t =
     \<lparr>call_time = t, call_model = model, call_messages = Some [''hello''],
      call_max_tokens = None, call_cost = 0\<rparr>"

text \<open>The detector with a rate ceiling of two requests.\<close>

definition strict_detector :: detector where
  "strict_detector = new_detector\<lparr>max_requests_per_minute := 2\<rparr>"

text \<open>The model name the pipeline works with (\<^verbatim>\<open>body.get("model", "unknown")\<close>), and a
  response body whose \<^verbatim>\<open>usage\<close>, when it has one, is a JSON object.\<close>

definition request_model :: "request \<Rightarrow> string" where
  "request_model req = (case body_model req of None \<Rightarrow> ''unknown'' | Some m \<Rightarrow> m)"

definition usage_is_object :: "(string \<times> json) list \<Rightarrow> bool" where
  "usage_is_object response_body =
     (case map_of response_body ''usage'' of
        None \<Rightarrow> True
      | Some j \<Rightarrow> (case j of JObj u \<Rightarrow> True | _ \<Rightarrow> False))"

text \<open>A chat request of the default session for \<^verbatim>\<open>gpt-4\<close> with one message of two
  words, and a successful upstream response whose usage reports a prompt token count
  that is not a number.\<close>

definition hello_request :: request where
  "hello_request =
     \<lparr>req_headers = [], req_query = [], body_model = Some ''gpt-4'',
      body_messages = Some [''hello world''], body_max_tokens = None\<rparr>"

definition odd_usage_body :: "(string \<times> json) list" where
  "odd_usage_body =
     [(''id'', JStr ''chatcmpl-1''),
      (''usage'', JObj [(''prompt_tokens'', JStr ''many''), (''completion_tokens'', JInt 5)])]"

text \<open>A successful upstream response with a usage of 10 prompt and 5 completion
  tokens, and the headers of the two successful responses of the scenarios.\<close>

definition usage_body :: "(string \<times> json) list" where
  "usage_body =
     [(''id'', JStr ''chatcmpl-2''),
      (''usage'', JObj [(''prompt_tokens'', JInt 10), (''completion_tokens'', JInt 5)])]"

text \<open>A successful upstream response whose \<^verbatim>\<open>usage\<close> is \<^verbatim>\<open>null\<close>.\<close>

definition null_usage_body :: "(string \<times> json) list" where
  "null_usage_body = [(''id'', JStr ''chatcmpl-3''), (''usage'', JNull)]"

definition upstream_headers :: "(string \<times> string) list" where
  "upstream_headers = [(''Content-Type'', ''application/json''), (''Server'', ''upstream'')]"

text \<open>The empty store on a connection whose seventeenth round trip fails: the sixteen
  round trips of the admission checks of a new session succeed, the first pipeline of
  \<open>deduct_cost\<close> does not.\<close>

definition flaky_world :: world where
  "flaky_world =
     \<lparr>kv = (\<lambda>k. None),
      faults = [False, False, False, False, False, False, False, False,
                False, False, False, False, False, False, False, False, True],
      logged = []\<rparr>"





text \<open>\<open>succeeds P m R\<close>: from a world where \<open>P\<close> holds, \<open>m\<close> raises nothing and returns
  a result and a world that \<open>R\<close> holds of.\<close>

definition succeeds :: "(world \<Rightarrow> bool) \<Rightarrow> 'a io \<Rightarrow> ('a \<Rightarrow> world \<Rightarrow> bool) \<Rightarrow> bool" where
  "succeeds P m R =
     (\<forall>w. P w \<longrightarrow> (case m w of (Inr x, w') \<Rightarrow> R x w' | (Inl e, w') \<Rightarrow> False))"




section \<open>Properties\<close>

subsection \<open>Pricing lookup\<close>

lemma first_prefix_match_append:
  "\<forall>k \<in> fst ` set before. \<not> prefix k model \<Longrightarrow>
   first_prefix_match (before @ rest) model = first_prefix_match rest model"
  by (induction before) auto

lemma first_prefix_match_none:
  "\<forall>k \<in> fst ` set prices. \<not> prefix k model \<Longrightarrow> first_prefix_match prices model = None"
  by (induction prices) auto

lemma longest_prefix_key_sound:
  "longest_prefix_key prices model = Some k \<Longrightarrow> prefix k model \<and> k \<in> fst ` set prices"
  by (induction prices arbitrary: k) (auto split: option.splits if_splits)

lemma first_is_longest:
  "sorted_wrt (\<lambda>a b. length (fst b) \<le> length (fst a)) prices \<Longrightarrow>
   first_prefix_match prices model =
     (case longest_prefix_key prices model of None \<Rightarrow> None | Some k \<Rightarrow> map_of prices k)"
proof (induction prices)
  case Nil
  then show ?case by simp
next
  case (Cons a prices)
  obtain key p where a: "a = (key, p)" by (cases a)
  from Cons.prems have srt: "sorted_wrt (\<lambda>a b. length (fst b) \<le> length (fst a)) prices"
    and le: "\<forall>b \<in> set prices. length (fst b) \<le> length key"
    by (auto simp: a)
  note IH = Cons.IH [OF srt]
  show ?case
  proof (cases "longest_prefix_key prices model")
    case None
    then show ?thesis using IH by (simp add: a)
  next
    case (Some k)
    then have k: "prefix k model" "k \<in> fst ` set prices"
      using longest_prefix_key_sound by blast+
    then have "length k \<le> length key" using le by auto
    moreover have "\<not> prefix key model \<Longrightarrow> k \<noteq> key" using k by auto
    ultimately show ?thesis using IH Some by (auto simp: a)
  qed
qed

text \<open>
  C1, as the code has it. \<open>get_pricing\<close> returns the entry of the requested name when
  the name is a key of the table. Otherwise it returns the entry of the first key, in
  the order of the table, that is a prefix of the name, and raises \<^verbatim>\<open>ValueError\<close> when
  no key is one. That first key is the longest prefix key, and the lookup is the one the
  specification describes, when the table lists its keys from the longest to the
  shortest.
\<close>

theorem get_pricing_first_prefix:
  "(map_of prices model = Some p \<longrightarrow> get_pricing prices model = Inr p) \<and>
   (map_of prices model = None \<and> prices = before @ (key, q) # rest \<and> prefix key model \<and>
      (\<forall>k \<in> fst ` set before. \<not> prefix k model)
      \<longrightarrow> get_pricing prices model = Inr q) \<and>
   (map_of prices model = None \<and> (\<forall>k \<in> fst ` set prices. \<not> prefix k model)
      \<longrightarrow> get_pricing prices model = Inl ValueError) \<and>
   (sorted_wrt (\<lambda>a b. length (fst b) \<le> length (fst a)) prices
      \<longrightarrow> get_pricing prices model = spec_get_pricing prices model)"
proof (intro conjI impI)
  assume "map_of prices model = Some p"
  then show "get_pricing prices model = Inr p" by (simp add: get_pricing_def)
next
  assume h: "map_of prices model = None \<and> prices = before @ (key, q) # rest \<and> prefix key model \<and>
      (\<forall>k \<in> fst ` set before. \<not> prefix k model)"
  then have f: "first_prefix_match prices model = Some q"
    using first_prefix_match_append [of before model "(key, q) # rest"] by simp
  from h have m: "map_of prices model = None" by blast
  show "get_pricing prices model = Inr q" unfolding get_pricing_def m f by simp
next
  assume "map_of prices model = None \<and> (\<forall>k \<in> fst ` set prices. \<not> prefix k model)"
  then show "get_pricing prices model = Inl ValueError"
    by (simp add: get_pricing_def first_prefix_match_none)
next
  assume "sorted_wrt (\<lambda>a b. length (fst b) \<le> length (fst a)) prices"
  then show "get_pricing prices model = spec_get_pricing prices model"
    by (simp add: get_pricing_def spec_get_pricing_def first_is_longest split: option.splits)
qed

text \<open>
  The four cases at \<open>turbo_table\<close>: an exact key, a dated variant of \<^verbatim>\<open>gpt-4\<close>, a
  name no key is a prefix of, and the reversed table, which lists the longer key first.
\<close>

theorem get_pricing_first_prefix_witness:
  "get_pricing turbo_table ''gpt-4-turbo'' = Inr [(''input'', 1 / 100), (''output'', 3 / 100)] \<and>
   get_pricing turbo_table ''gpt-4-0613'' = Inr [(''input'', 3 / 100), (''output'', 6 / 100)] \<and>
   get_pricing turbo_table ''claude'' = Inl ValueError \<and>
   get_pricing (rev turbo_table) ''gpt-4-turbo-preview''
     = spec_get_pricing (rev turbo_table) ''gpt-4-turbo-preview''"
proof -
  have e: "map_of turbo_table ''gpt-4-turbo'' = Some [(''input'', 1 / 100), (''output'', 3 / 100)]"
    by (simp add: turbo_table_def)
  have f: "map_of turbo_table ''gpt-4-0613'' = None \<and>
      turbo_table = [] @ (''gpt-4'', [(''input'', 3 / 100), (''output'', 6 / 100)])
         # [(''gpt-4-turbo'', [(''input'', 1 / 100), (''output'', 3 / 100)])] \<and>
      prefix ''gpt-4'' ''gpt-4-0613'' \<and> (\<forall>k \<in> fst ` set []. \<not> prefix k ''gpt-4-0613'')"
    by (simp add: turbo_table_def)
  have n: "map_of turbo_table ''claude'' = None \<and>
      (\<forall>k \<in> fst ` set turbo_table. \<not> prefix k ''claude'')"
    by (simp add: turbo_table_def)
  have s: "sorted_wrt (\<lambda>a b. length (fst b) \<le> length (fst a)) (rev turbo_table)"
    by (simp add: turbo_table_def)
  note a = get_pricing_first_prefix [THEN conjunct1, rule_format, OF e]
  note b = get_pricing_first_prefix [THEN conjunct2, THEN conjunct1, rule_format, OF f]
  note c = get_pricing_first_prefix [THEN conjunct2, THEN conjunct2, THEN conjunct1, rule_format, OF n]
  note d = get_pricing_first_prefix [THEN conjunct2, THEN conjunct2, THEN conjunct2, rule_format, OF s]
  show ?thesis using a b c d by (intro conjI)
qed

text \<open>
  C1 as the specification states it fails: \<^verbatim>\<open>gpt-4-turbo-preview\<close> extends the
  registered keys \<^verbatim>\<open>gpt-4\<close> and \<^verbatim>\<open>gpt-4-turbo\<close>, the longest of them is
  \<^verbatim>\<open>gpt-4-turbo\<close>, and \<open>get_pricing\<close> resolves the name to the prices of \<^verbatim>\<open>gpt-4\<close>,
  which the table registers first.
\<close>

theorem get_pricing_longest_prefix_counterexample:
  "get_pricing turbo_table ''gpt-4-turbo-preview''
     = Inr [(''input'', 3 / 100), (''output'', 6 / 100)] \<and>
   longest_prefix_key turbo_table ''gpt-4-turbo-preview'' = Some ''gpt-4-turbo'' \<and>
   spec_get_pricing turbo_table ''gpt-4-turbo-preview''
     = Inr [(''input'', 1 / 100), (''output'', 3 / 100)]"
  by (simp add: get_pricing_def spec_get_pricing_def turbo_table_def)

subsection \<open>Cost estimate\<close>

lemma sum_list_words:
  "sum_list (map (\<lambda>msg. int (length (py_split msg)) * 4) l)
     = 4 * int (length (concat (map py_split l)))"
  by (induction l) auto

text \<open>
  C7, amended. For every table and every model name, \<open>estimate_cost\<close> returns a cost
  exactly when both token counts convert to a \<^verbatim>\<open>float\<close>, that is when their magnitude
  is below \<open>2^1024 - 2^970\<close>; otherwise it raises \<^verbatim>\<open>OverflowError\<close>. The name of the
  model never makes it fail: with the prices of the resolved entry (a missing price
  counting as zero), or the fallback prices 0.03 and 0.06 when the lookup raises, the
  cost is input tokens per thousand times the input price plus output tokens per
  thousand times the output price; the token counts are those of \<open>spec_input_tokens\<close>
  and \<open>spec_output_tokens\<close>. At \<^verbatim>\<open>gpt-4\<close> with prices 0.03 and 0.06, 1000 input tokens
  and a maximum of 500 output tokens the estimate is 0.06.
\<close>

theorem estimate_cost_formula:
  "((\<exists>c. estimate_cost prices model input_tokens max_tokens msgs = Inr c) =
      (fits_float (spec_input_tokens input_tokens msgs) \<and>
       fits_float (spec_output_tokens max_tokens))) \<and>
   (\<not> (fits_float (spec_input_tokens input_tokens msgs) \<and>
        fits_float (spec_output_tokens max_tokens)) \<longrightarrow>
      estimate_cost prices model input_tokens max_tokens msgs = Inl OverflowError) \<and>
   (fits_float (spec_input_tokens input_tokens msgs) \<and>
    fits_float (spec_output_tokens max_tokens) \<and> get_pricing prices model = Inr p \<longrightarrow>
      estimate_cost prices model input_tokens max_tokens msgs =
        Inr (of_int (spec_input_tokens input_tokens msgs) / 1000 * dict_get p ''input'' 0
           + of_int (spec_output_tokens max_tokens) / 1000 * dict_get p ''output'' 0)) \<and>
   (fits_float (spec_input_tokens input_tokens msgs) \<and>
    fits_float (spec_output_tokens max_tokens) \<and> get_pricing prices model = Inl e \<longrightarrow>
      estimate_cost prices model input_tokens max_tokens msgs =
        Inr (of_int (spec_input_tokens input_tokens msgs) / 1000 * (3 / 100)
           + of_int (spec_output_tokens max_tokens) / 1000 * (6 / 100))) \<and>
   (map_of prices ''gpt-4'' = Some g \<and> map_of g ''input'' = Some (3 / 100) \<and>
      map_of g ''output'' = Some (6 / 100) \<longrightarrow>
      estimate_cost prices ''gpt-4'' (Some 1000) (Some 500) msgs = Inr (6 / 100))"
proof -
  have tok: "(case input_tokens of Some n \<Rightarrow> n
      | None \<Rightarrow> (if truthy_messages msgs
            then sum_list (map (\<lambda>msg. int (length (py_split msg)) * 4) (the msgs)) else 1000))
     = spec_input_tokens input_tokens msgs"
    by (auto simp: spec_input_tokens_def truthy_messages_def sum_list_words
        split: option.splits list.splits)
  have out: "(case max_tokens of Some n \<Rightarrow> n | None \<Rightarrow> 500) = spec_output_tokens max_tokens"
    by (simp add: spec_output_tokens_def)
  have err: "\<And>e. get_pricing prices model = Inl e \<Longrightarrow> e = ValueError"
    by (auto simp: get_pricing_def split: option.splits)
  have known: "estimate_cost prices model input_tokens max_tokens msgs =
      (if fits_float (spec_input_tokens input_tokens msgs) \<and>
          fits_float (spec_output_tokens max_tokens)
       then Inr (of_int (spec_input_tokens input_tokens msgs) / 1000 * dict_get p ''input'' 0
           + of_int (spec_output_tokens max_tokens) / 1000 * dict_get p ''output'' 0)
       else Inl OverflowError)"
    if "get_pricing prices model = Inr p" for p
    using that
    unfolding estimate_cost_def pricing_or_fallback_def Let_def tok out
    by (simp add: float_of_int_def)
  have unknown: "estimate_cost prices model input_tokens max_tokens msgs =
      (if fits_float (spec_input_tokens input_tokens msgs) \<and>
          fits_float (spec_output_tokens max_tokens)
       then Inr (of_int (spec_input_tokens input_tokens msgs) / 1000 * (3 / 100)
           + of_int (spec_output_tokens max_tokens) / 1000 * (6 / 100))
       else Inl OverflowError)"
    if "get_pricing prices model = Inl e" for e
    using that err [OF that]
    unfolding estimate_cost_def pricing_or_fallback_def Let_def tok out
    by (simp add: float_of_int_def fallback_pricing_def dict_get_def)
  have small: "fits_float 1000" "fits_float 500"
    by (simp_all add: fits_float_def)
  have scenario: "estimate_cost prices ''gpt-4'' (Some 1000) (Some 500) msgs = Inr (6 / 100)"
    if "map_of prices ''gpt-4'' = Some g \<and> map_of g ''input'' = Some (3 / 100) \<and>
      map_of g ''output'' = Some (6 / 100)"
    using that small
    by (simp add: estimate_cost_def pricing_or_fallback_def get_pricing_def Let_def
        float_of_int_def dict_get_def)
  show ?thesis
  proof (cases "get_pricing prices model")
    case (Inl e')
    show ?thesis using unknown [OF Inl] Inl scenario by auto
  next
    case (Inr p')
    show ?thesis using known [OF Inr] Inr scenario by auto
  qed
qed

text \<open>The \<^verbatim>\<open>gpt-4\<close> scenario at \<open>turbo_table\<close>, and a model no key matches, with one
  message of two words: 8 input tokens and 500 output tokens at the fallback prices cost
  0.03024.\<close>

theorem estimate_cost_formula_witness:
  "estimate_cost turbo_table ''gpt-4'' (Some 1000) (Some 500) None = Inr (6 / 100) \<and>
   estimate_cost turbo_table ''mystery'' None None (Some [''hello  world'']) = Inr (189 / 6250)"
proof -
  have g: "map_of turbo_table ''gpt-4'' = Some [(''input'', 3 / 100), (''output'', 6 / 100)] \<and>
      map_of [(''input'', 3 / 100), (''output'', 6 / 100 :: rat)] ''input'' = Some (3 / 100) \<and>
      map_of [(''input'', 3 / 100 :: rat), (''output'', 6 / 100)] ''output'' = Some (6 / 100)"
    by (simp add: turbo_table_def)
  have u: "get_pricing turbo_table ''mystery'' = Inl ValueError"
    by (simp add: get_pricing_def turbo_table_def)
  have t: "spec_input_tokens None (Some [''hello  world'']) = 8"
    by (simp add: spec_input_tokens_def py_split_def is_space_def)
  have o: "spec_output_tokens None = 500"
    by (simp add: spec_output_tokens_def)
  have f: "fits_float (spec_input_tokens None (Some [''hello  world''])) \<and>
      fits_float (spec_output_tokens None) \<and> get_pricing turbo_table ''mystery'' = Inl ValueError"
    unfolding t o using u by (simp add: fits_float_def)
  note a = estimate_cost_formula [THEN conjunct2, THEN conjunct2, THEN conjunct2, THEN conjunct2,
      rule_format, OF g]
  note b = estimate_cost_formula [THEN conjunct2, THEN conjunct2, THEN conjunct2, THEN conjunct1,
      rule_format, OF f]
  show ?thesis using a b unfolding t o by simp
qed

text \<open>
  C7 as the claim words it does not hold: the estimate fails for a token count beyond
  the range of a double, whatever the model. A \<^verbatim>\<open>max_tokens\<close> of \<open>2^1024\<close> raises
  \<^verbatim>\<open>OverflowError\<close>, for a model of the table and for an unknown one.
\<close>

theorem estimate_cost_overflow_counterexample:
  "estimate_cost turbo_table ''gpt-4'' (Some 1000) (Some (2 ^ 1024)) None = Inl OverflowError \<and>
   estimate_cost turbo_table ''mystery'' None (Some (2 ^ 1024)) (Some [''hello''])
     = Inl OverflowError"
  by (simp add: estimate_cost_def pricing_or_fallback_def get_pricing_def turbo_table_def
      fallback_pricing_def float_of_int_def fits_float_def dict_get_def truthy_messages_def
      py_split_def is_space_def)

subsection \<open>Budget ledger\<close>

lemma budget_spent_keys_differ [simp]:
  "get_budget_key sid \<noteq> get_spent_key sid" "get_spent_key sid \<noteq> get_budget_key sid"
  by (simp_all add: get_budget_key_def get_spent_key_def)

lemma command_healthy: "faults w = [] \<Longrightarrow> command f w = run_on_store f w"
  by (simp add: command_def)

lemma to_decimal_is_string: "to_decimal v = Inr d \<Longrightarrow> is_string v"
  by (cases v) (simp_all add: to_decimal_def is_string_def)

lemma live_upd_other: "k' \<noteq> k \<Longrightarrow> live (s(k \<mapsto> e)) now k' = live s now k'"
  by (simp add: live_def)

lemma live_upd_same_noexp: "live (s(k \<mapsto> Entry v None)) now k = Some v"
  by (simp add: live_def)

text \<open>
  C5. On a store that answers, with a limit and a spent amount that are absent or
  decimal texts, \<open>check_budget\<close> returns whether the estimated cost is at most the limit
  minus the spent amount, the limit being the configured default when the key is absent
  and the spent amount zero when its key is absent. It writes the default limit under
  the budget key when that key is absent and changes nothing else.
\<close>

theorem check_budget_sufficient:
  assumes healthy: "faults w = []"
    and limit: "decimal_or (default_budget cfg) (live (kv w) now (get_budget_key sid)) = Inr limit"
    and spent: "decimal_or 0 (live (kv w) now (get_spent_key sid)) = Inr spent"
  shows "check_budget cfg sid estimated_cost now w =
           (Inr (estimated_cost \<le> limit - spent),
            (if live (kv w) now (get_budget_key sid) = None
             then w\<lparr>kv := (kv w)(get_budget_key sid \<mapsto> Entry (RDec (default_budget cfg)) None)\<rparr>
             else w))"
proof (cases "live (kv w) now (get_budget_key sid)")
  case None
  with limit have l: "limit = default_budget cfg" by (simp add: decimal_or_def)
  show ?thesis
  proof (cases "live (kv w) now (get_spent_key sid)")
    case n2: None
    with spent have "spent = 0" by (simp add: decimal_or_def)
    then show ?thesis using None n2 healthy l
      by (simp add: check_budget_def io_try_def io_bind_def io_return_def io_of_def redis_get_def
          redis_set_def command_healthy run_on_store_def store_get_def store_set_def
          live_upd_other to_decimal_def)
  next
    case (Some v)
    with spent have "to_decimal v = Inr spent" by (simp add: decimal_or_def)
    then show ?thesis using None Some healthy l to_decimal_is_string [of v spent]
      by (simp add: check_budget_def io_try_def io_bind_def io_return_def io_of_def redis_get_def
          redis_set_def command_healthy run_on_store_def store_get_def store_set_def
          live_upd_other to_decimal_def)
  qed
next
  case (Some b)
  with limit have l: "to_decimal b = Inr limit" by (simp add: decimal_or_def)
  show ?thesis
  proof (cases "live (kv w) now (get_spent_key sid)")
    case n2: None
    with spent have "spent = 0" by (simp add: decimal_or_def)
    then show ?thesis using Some n2 healthy l to_decimal_is_string [of b limit]
      by (simp add: check_budget_def io_try_def io_bind_def io_return_def io_of_def redis_get_def
          redis_set_def command_healthy run_on_store_def store_get_def store_set_def
          live_upd_other to_decimal_def)
  next
    case s2: (Some v)
    with spent have "to_decimal v = Inr spent" by (simp add: decimal_or_def)
    then show ?thesis using Some s2 healthy l to_decimal_is_string [of v spent] to_decimal_is_string [of b limit]
      by (simp add: check_budget_def io_try_def io_bind_def io_return_def io_of_def redis_get_def
          redis_set_def command_healthy run_on_store_def store_get_def store_set_def
          live_upd_other to_decimal_def)
  qed
qed

text \<open>Session \<^verbatim>\<open>s\<close> with limit 10 and 6.50 spent affords 3.50 and does not afford 4;
  a session with no keys affords the default 10, which is then stored.\<close>

theorem check_budget_sufficient_witness:
  "check_budget default_settings ''s'' (7 / 2) 0 funded_world = (Inr True, funded_world) \<and>
   check_budget default_settings ''s'' 4 0 funded_world = (Inr False, funded_world) \<and>
   check_budget default_settings ''s'' 10 0 empty_world =
     (Inr True, empty_world\<lparr>kv := (kv empty_world)(get_budget_key ''s'' \<mapsto> Entry (RDec 10) None)\<rparr>)"
proof -
  have h: "faults funded_world = []" by (simp add: funded_world_def)
  have l: "decimal_or (default_budget default_settings) (live (kv funded_world) 0 (get_budget_key ''s'')) = Inr 10"
    by (simp add: funded_world_def live_def decimal_or_def to_decimal_def)
  have s: "decimal_or 0 (live (kv funded_world) 0 (get_spent_key ''s'')) = Inr (13 / 2)"
    by (simp add: funded_world_def live_def decimal_or_def to_decimal_def)
  have lb: "live (kv funded_world) 0 (get_budget_key ''s'') \<noteq> None"
    by (simp add: funded_world_def live_def)
  have h': "faults empty_world = []" by (simp add: empty_world_def)
  have l': "decimal_or (default_budget default_settings) (live (kv empty_world) 0 (get_budget_key ''s'')) = Inr 10"
    by (simp add: empty_world_def live_def decimal_or_def default_settings_def)
  have s': "decimal_or 0 (live (kv empty_world) 0 (get_spent_key ''s'')) = Inr 0"
    by (simp add: empty_world_def live_def decimal_or_def)
  have le: "live (kv empty_world) 0 (get_budget_key ''s'') = None"
    by (simp add: empty_world_def live_def)
  have d: "default_budget default_settings = 10" by (simp add: default_settings_def)
  show ?thesis
    using check_budget_sufficient [OF h l s, of "7 / 2"] check_budget_sufficient [OF h l s, of 4]
      check_budget_sufficient [OF h' l' s', of 10] lb le d
    by simp
qed

lemma amount_or_absent_read:
  "amount_or_absent s k \<Longrightarrow> \<exists>x. decimal_or d (live s now k) = Inr x"
  by (auto simp: amount_or_absent_def decimal_or_def live_def split: option.splits sum.splits)

lemma store_get_amount:
  "decimal_or d (live s now k) = Inr x \<Longrightarrow> store_get k now s = Inr (live s now k, s)"
  by (auto simp: store_get_def decimal_or_def split: option.splits dest: to_decimal_is_string)

lemma deduct_cost_step:
  assumes healthy: "faults w = []"
    and limit: "decimal_or (default_budget cfg) (live (kv w) now (get_budget_key sid)) = Inr limit"
    and spent: "decimal_or 0 (live (kv w) now (get_spent_key sid)) = Inr spent"
  shows "deduct_cost cfg sid c now w =
           (Inr (max 0 (limit - (spent + c))),
            w\<lparr>kv := (if live (kv w) now (get_budget_key sid) = None
                       then (kv w)(get_budget_key sid \<mapsto> Entry (RDec (default_budget cfg)) None)
                       else kv w)
                     (get_spent_key sid \<mapsto> Entry (RDec (spent + c)) None)\<rparr>)"
  using healthy limit spent store_get_amount [OF limit] store_get_amount [OF spent]
  by (auto simp: deduct_cost_def io_try_def io_bind_def io_return_def io_of_def
      command_healthy run_on_store_def store_get2_def store_set_queued_def decimal_or_def Let_def
      to_decimal_def split: option.splits)

lemma deduct_cost_post:
  assumes healthy: "faults w = []"
    and b: "amount_or_absent (kv w) (get_budget_key sid)"
    and s: "amount_or_absent (kv w) (get_spent_key sid)"
  shows "\<exists>w1. deduct_cost cfg sid c now w =
            (Inr (max 0 (limit_at cfg sid now (kv w) - (spent_at sid now (kv w) + c))), w1) \<and>
          faults w1 = [] \<and> amount_or_absent (kv w1) (get_budget_key sid) \<and>
          amount_or_absent (kv w1) (get_spent_key sid) \<and>
          (\<forall>t. spent_at sid t (kv w1) = spent_at sid now (kv w) + c)"
proof -
  obtain limit where l: "decimal_or (default_budget cfg) (live (kv w) now (get_budget_key sid)) = Inr limit"
    using amount_or_absent_read [OF b] by blast
  obtain spent where sp: "decimal_or 0 (live (kv w) now (get_spent_key sid)) = Inr spent"
    using amount_or_absent_read [OF s] by blast
  have la: "limit_at cfg sid now (kv w) = limit" by (simp add: limit_at_def l)
  have sa: "spent_at sid now (kv w) = spent" by (simp add: spent_at_def sp)
  note step = deduct_cost_step [OF healthy l sp, of c]
  show ?thesis
    unfolding step la sa using healthy b
    by (auto simp: amount_or_absent_def spent_at_def decimal_or_def live_def to_decimal_def)
qed

text \<open>
  C6. On a store that answers, with a limit and a spent amount that are absent or
  decimal texts: \<open>deduct_cost\<close> stores the spent amount plus the actual cost as the new
  spent amount and returns the limit minus the new spent amount, or zero when that is
  negative. Three deductions in sequence, at any instants, leave the spent amount that
  one deduction of the three costs' sum leaves, the old amount plus the sum.
\<close>

theorem deduct_cost_accumulates:
  assumes healthy: "faults w = []"
    and b: "amount_or_absent (kv w) (get_budget_key sid)"
    and s: "amount_or_absent (kv w) (get_spent_key sid)"
  shows
    "(case deduct_cost cfg sid c now w of
        (r, w') \<Rightarrow>
          (\<forall>t. spent_at sid t (kv w') = spent_at sid now (kv w) + c) \<and>
          r = Inr (max 0 (limit_at cfg sid now (kv w) - spent_at sid now (kv w'))))
     \<and>
     (let w1 = snd (deduct_cost cfg sid c1 t1 w);
          w2 = snd (deduct_cost cfg sid c2 t2 w1);
          w3 = snd (deduct_cost cfg sid c3 t3 w2);
          w' = snd (deduct_cost cfg sid (c1 + c2 + c3) t1 w)
      in (\<forall>t. spent_at sid t (kv w3) = spent_at sid t (kv w')) \<and>
         (\<forall>t. spent_at sid t (kv w3) = spent_at sid t1 (kv w) + (c1 + c2 + c3)) \<and>
         fst (deduct_cost cfg sid c3 t3 w2)
           = Inr (max 0 (limit_at cfg sid t3 (kv w2) - spent_at sid t3 (kv w3))))"
proof -
  obtain v where v: "deduct_cost cfg sid c now w =
            (Inr (max 0 (limit_at cfg sid now (kv w) - (spent_at sid now (kv w) + c))), v)"
      "\<forall>t. spent_at sid t (kv v) = spent_at sid now (kv w) + c"
    using deduct_cost_post [OF healthy b s] by blast
  have first: "case deduct_cost cfg sid c now w of
        (r, w') \<Rightarrow>
          (\<forall>t. spent_at sid t (kv w') = spent_at sid now (kv w) + c) \<and>
          r = Inr (max 0 (limit_at cfg sid now (kv w) - spent_at sid now (kv w')))"
    using v by simp
  obtain w1 where w1: "deduct_cost cfg sid c1 t1 w =
            (Inr (max 0 (limit_at cfg sid t1 (kv w) - (spent_at sid t1 (kv w) + c1))), w1)"
      "faults w1 = []" "amount_or_absent (kv w1) (get_budget_key sid)"
      "amount_or_absent (kv w1) (get_spent_key sid)"
      "\<forall>t. spent_at sid t (kv w1) = spent_at sid t1 (kv w) + c1"
    using deduct_cost_post [OF healthy b s] by blast
  obtain w2 where w2: "deduct_cost cfg sid c2 t2 w1 =
            (Inr (max 0 (limit_at cfg sid t2 (kv w1) - (spent_at sid t2 (kv w1) + c2))), w2)"
      "faults w2 = []" "amount_or_absent (kv w2) (get_budget_key sid)"
      "amount_or_absent (kv w2) (get_spent_key sid)"
      "\<forall>t. spent_at sid t (kv w2) = spent_at sid t2 (kv w1) + c2"
    using deduct_cost_post [OF w1(2,3,4)] by blast
  obtain w3 where w3: "deduct_cost cfg sid c3 t3 w2 =
            (Inr (max 0 (limit_at cfg sid t3 (kv w2) - (spent_at sid t3 (kv w2) + c3))), w3)"
      "\<forall>t. spent_at sid t (kv w3) = spent_at sid t3 (kv w2) + c3"
    using deduct_cost_post [OF w2(2,3,4)] by blast
  obtain w' where w': "deduct_cost cfg sid (c1 + c2 + c3) t1 w =
            (Inr (max 0 (limit_at cfg sid t1 (kv w) - (spent_at sid t1 (kv w) + (c1 + c2 + c3)))), w')"
      "\<forall>t. spent_at sid t (kv w') = spent_at sid t1 (kv w) + (c1 + c2 + c3)"
    using deduct_cost_post [OF healthy b s] by blast
  have second: "let w1 = snd (deduct_cost cfg sid c1 t1 w);
          w2 = snd (deduct_cost cfg sid c2 t2 w1);
          w3 = snd (deduct_cost cfg sid c3 t3 w2);
          w' = snd (deduct_cost cfg sid (c1 + c2 + c3) t1 w)
      in (\<forall>t. spent_at sid t (kv w3) = spent_at sid t (kv w')) \<and>
         (\<forall>t. spent_at sid t (kv w3) = spent_at sid t1 (kv w) + (c1 + c2 + c3)) \<and>
         fst (deduct_cost cfg sid c3 t3 w2)
           = Inr (max 0 (limit_at cfg sid t3 (kv w2) - spent_at sid t3 (kv w3)))"
    using w1(1,5) w2(1,5) w3 w' by (simp add: Let_def)
  from first second show ?thesis by (rule conjI)
qed

lemma limit_world_facts:
  "faults limit_world = []" "amount_or_absent (kv limit_world) (get_budget_key ''s'')"
  "amount_or_absent (kv limit_world) (get_spent_key ''s'')"
  by (simp_all add: limit_world_def amount_or_absent_def to_decimal_def)

text \<open>Scenario A: with limit 10, deducting 2, then 3, then 1.50 returns a remaining
  3.50 at the third call and leaves 6.50 spent, as one deduction of 6.50 does.\<close>

theorem deduct_cost_accumulates_witness:
  "fst (deduct_cost default_settings ''s'' (3 / 2) 3
         (snd (deduct_cost default_settings ''s'' 3 2
           (snd (deduct_cost default_settings ''s'' 2 1 limit_world))))) = Inr (7 / 2) \<and>
   spent_at ''s'' 4
     (kv (snd (deduct_cost default_settings ''s'' (3 / 2) 3
         (snd (deduct_cost default_settings ''s'' 3 2
           (snd (deduct_cost default_settings ''s'' 2 1 limit_world))))))) = 13 / 2 \<and>
   spent_at ''s'' 4 (kv (snd (deduct_cost default_settings ''s'' (13 / 2) 1 limit_world))) = 13 / 2"
proof -
  note t = deduct_cost_accumulates [OF limit_world_facts,
      where cfg = default_settings and ?c1.0 = 2 and ?t1.0 = 1 and ?c2.0 = 3 and ?t2.0 = 2
        and ?c3.0 = "3 / 2" and ?t3.0 = 3,
      THEN conjunct2, unfolded Let_def]
  have s0: "spent_at ''s'' 1 (kv limit_world) = 0"
    by (simp add: spent_at_def decimal_or_def live_def limit_world_def)
  have l0: "decimal_or (default_budget default_settings) (live (kv limit_world) 1 (get_budget_key ''s'')) = Inr 10"
    by (simp add: decimal_or_def live_def limit_world_def to_decimal_def)
  have sp0: "decimal_or 0 (live (kv limit_world) 1 (get_spent_key ''s'')) = Inr 0"
    by (simp add: decimal_or_def live_def limit_world_def)
  note d1 = deduct_cost_step [OF limit_world_facts(1) l0 sp0, of 2]
  have lim: "limit_at default_settings ''s'' 3
      (kv (snd (deduct_cost default_settings ''s'' 3 2
           (snd (deduct_cost default_settings ''s'' 2 1 limit_world))))) = 10"
    unfolding d1
    by (simp add: limit_world_def deduct_cost_def io_try_def io_bind_def io_return_def io_of_def
      command_healthy run_on_store_def store_get2_def store_set_queued_def decimal_or_def Let_def
      to_decimal_def store_get_def live_def is_string_def limit_at_def)
  note a = t [THEN conjunct1, THEN spec, of 4]
  have b: "spent_at ''s'' u
       (kv (snd (deduct_cost default_settings ''s'' (3 / 2) 3
         (snd (deduct_cost default_settings ''s'' 3 2
           (snd (deduct_cost default_settings ''s'' 2 1 limit_world)))))))
      = 13 / 2" for u
    using t [THEN conjunct2, THEN conjunct1, THEN spec, of u] unfolding s0 by simp
  have c: "fst (deduct_cost default_settings ''s'' (3 / 2) 3
         (snd (deduct_cost default_settings ''s'' 3 2
           (snd (deduct_cost default_settings ''s'' 2 1 limit_world)))))
      = Inr (7 / 2)"
    using t [THEN conjunct2, THEN conjunct2] unfolding lim b by simp
  have n: "(2 + 3 + 3 / 2 :: rat) = 13 / 2" by simp
  show ?thesis using a c unfolding b n by simp
qed










subsection \<open>What a run leaves as it is\<close>

lemma preserves_return: "preserves I P (io_return x)"
  by (simp add: preserves_def io_return_def)

lemma preserves_raise: "preserves I P (io_raise e)"
  by (simp add: preserves_def io_raise_def)

lemma preserves_of: "preserves I P (io_of r)"
  by (simp add: preserves_def io_of_def split: sum.splits)

lemma preserves_log_request_kv:
  "preserves (\<lambda>w. kv w k = c) P (log_request a b cc d e f g h i)"
  by (simp add: preserves_def log_request_def)

lemma preserves_log_request_healthy:
  "preserves (\<lambda>w. faults w = []) P (log_request a b cc d e f g h i)"
  by (simp add: preserves_def log_request_def)

lemma preserves_bind:
  "preserves I any_outcome m \<Longrightarrow> (\<And>x. preserves I P (f x)) \<Longrightarrow> preserves I P (io_bind m f)"
  by (auto simp: preserves_def io_bind_def any_outcome_def split: prod.splits sum.splits)

lemma preserves_try:
  "preserves I any_outcome m \<Longrightarrow> (\<And>e. preserves I P (h e)) \<Longrightarrow> preserves I P (io_try m h)"
  by (auto simp: preserves_def io_try_def any_outcome_def split: prod.splits sum.splits)

lemma preserves_rejects:
  "preserves I admitted (io_bind m (\<lambda>_. io_return (True, r)))"
  by (auto simp: preserves_def io_bind_def io_return_def admitted_def split: prod.splits sum.splits)

lemma preserves_command_healthy: "preserves (\<lambda>w. faults w = []) P (command f)"
  by (auto simp: preserves_def command_def run_on_store_def split: sum.splits list.splits)

lemma preserves_command_kv:
  "untouched k f \<Longrightarrow> preserves (\<lambda>w. kv w k = c) P (command f)"
  unfolding preserves_def untouched_def command_def run_on_store_def
  by (auto split: sum.splits list.splits prod.splits)

lemma untouched_get [simp]: "untouched k (store_get k' now)"
  by (simp add: untouched_def store_get_def split: option.splits)

lemma untouched_zrange [simp]: "untouched k (store_zrange_all k' now)"
  by (simp add: untouched_def store_zrange_all_def split: option.splits rvalue.splits)

lemma untouched_get2 [simp]: "untouched k (store_get2 k1 k2 now)"
  by (simp add: untouched_def store_get2_def store_get_def split: option.splits)

lemma untouched_set [simp]: "k' \<noteq> k \<Longrightarrow> untouched k (store_set k' v now)"
  by (simp add: untouched_def store_set_def)

lemma untouched_setex [simp]: "k' \<noteq> k \<Longrightarrow> untouched k (store_setex k' ttl v now)"
  by (simp add: untouched_def store_setex_def)

lemma untouched_delete [simp]: "k' \<noteq> k \<Longrightarrow> untouched k (store_delete k' now)"
  by (simp add: untouched_def store_delete_def)

lemma untouched_incr [simp]: "k' \<noteq> k \<Longrightarrow> untouched k (store_incr k' now)"
  by (simp add: untouched_def store_incr_def split: option.splits rvalue.splits)

lemma untouched_expire [simp]: "k' \<noteq> k \<Longrightarrow> untouched k (store_expire k' ttl now)"
  by (simp add: untouched_def store_expire_def split: option.splits)

lemma untouched_zadd [simp]: "k' \<noteq> k \<Longrightarrow> untouched k (store_zadd k' m sc now)"
  by (simp add: untouched_def store_zadd_def split: option.splits rvalue.splits)

lemma untouched_zrem [simp]: "k' \<noteq> k \<Longrightarrow> untouched k (store_zremrangebyscore k' lo hi now)"
  by (simp add: untouched_def store_zremrangebyscore_def Let_def split: option.splits rvalue.splits)

lemma untouched_lpush [simp]: "k' \<noteq> k \<Longrightarrow> untouched k (store_lpush k' x now)"
  by (simp add: untouched_def store_lpush_def split: option.splits rvalue.splits)

lemma untouched_ltrim [simp]: "k' \<noteq> k \<Longrightarrow> untouched k (store_ltrim_head k' n now)"
  by (simp add: untouched_def store_ltrim_head_def split: option.splits rvalue.splits)

lemma untouched_set_queued [simp]:
  "k \<notin> fst ` set q \<Longrightarrow> untouched k (store_set_queued q now)"
proof -
  have "k \<notin> fst ` set q \<Longrightarrow> fold (\<lambda>(k, v) s'. s'(k \<mapsto> Entry v None)) q s k = s k" for s
    by (induction q arbitrary: s) auto
  then show "k \<notin> fst ` set q \<Longrightarrow> untouched k (store_set_queued q now)"
    by (simp add: untouched_def store_set_queued_def)
qed

lemma preserves_if:
  "(c \<Longrightarrow> preserves I P a) \<Longrightarrow> (\<not> c \<Longrightarrow> preserves I P b) \<Longrightarrow> preserves I P (if c then a else b)"
  by simp

lemma preserves_let: "preserves I P (f x) \<Longrightarrow> preserves I P (Let x f)"
  by simp

lemma preserves_case_prod:
  "(\<And>a b. preserves I P (f a b)) \<Longrightarrow> preserves I P (case_prod f x)"
  by (cases x) simp

lemma preserves_case_option:
  "preserves I P a \<Longrightarrow> (\<And>v. preserves I P (b v)) \<Longrightarrow> preserves I P (case_option a b x)"
  by (cases x) simp_all

lemma preserves_case_sum:
  "(\<And>v. preserves I P (a v)) \<Longrightarrow> (\<And>v. preserves I P (b v)) \<Longrightarrow> preserves I P (case_sum a b x)"
  by (cases x) simp_all

lemmas preserves_steps =
  preserves_rejects preserves_bind preserves_try preserves_if preserves_let preserves_case_prod
  preserves_case_option preserves_case_sum preserves_return preserves_raise preserves_of

lemmas redis_defs =
  redis_get_def redis_set_def redis_setex_def redis_delete_def redis_incr_def redis_expire_def
  redis_zadd_def redis_zremrangebyscore_def redis_zrange_all_def redis_lpush_def
  redis_ltrim_head_def

lemmas anomaly_keys =
  request_count_key_def request_history_key_def last_request_hash_key_def
  identical_count_key_def spend_velocity_key_def frozen_until_key_def freeze_reason_key_def

text \<open>A store that answers keeps answering.\<close>

lemma healthy_is_session_frozen: "preserves (\<lambda>w. faults w = []) P (is_session_frozen sid now)"
  unfolding is_session_frozen_def unfreeze_session_def redis_defs
  by (intro preserves_steps preserves_command_healthy)

lemma healthy_freeze_session: "preserves (\<lambda>w. faults w = []) P (freeze_session det sid r now)"
  unfolding freeze_session_def redis_defs
  by (intro preserves_steps preserves_command_healthy)

lemma healthy_check_velocity:
  "preserves (\<lambda>w. faults w = []) P (check_velocity det sid model h c now)"
  unfolding check_velocity_def log_anomaly_request_def redis_defs
  by (intro preserves_steps preserves_command_healthy healthy_freeze_session)

lemma healthy_check_identical:
  "preserves (\<lambda>w. faults w = []) P (check_identical dg det sid model ms mt c now)"
  unfolding check_identical_def redis_defs
  by (intro preserves_steps preserves_command_healthy healthy_freeze_session healthy_check_velocity)

lemma healthy_check_anomalies:
  "preserves (\<lambda>w. faults w = []) P (check_anomalies dg det sid model ms mt c now)"
  unfolding check_anomalies_def redis_defs
  by (intro preserves_steps preserves_command_healthy healthy_freeze_session
      healthy_check_identical healthy_is_session_frozen)



subsection \<open>Anomaly detector\<close>

lemma anomaly_keys_differ [simp]:
  "request_count_key sid \<noteq> request_history_key sid"
  "request_count_key sid \<noteq> last_request_hash_key sid"
  "request_count_key sid \<noteq> identical_count_key sid"
  "request_count_key sid \<noteq> spend_velocity_key sid"
  "request_count_key sid \<noteq> frozen_until_key sid"
  "request_count_key sid \<noteq> freeze_reason_key sid"
  "request_history_key sid \<noteq> request_count_key sid"
  "request_history_key sid \<noteq> last_request_hash_key sid"
  "request_history_key sid \<noteq> identical_count_key sid"
  "request_history_key sid \<noteq> spend_velocity_key sid"
  "request_history_key sid \<noteq> frozen_until_key sid"
  "request_history_key sid \<noteq> freeze_reason_key sid"
  "last_request_hash_key sid \<noteq> request_count_key sid"
  "last_request_hash_key sid \<noteq> request_history_key sid"
  "last_request_hash_key sid \<noteq> identical_count_key sid"
  "last_request_hash_key sid \<noteq> spend_velocity_key sid"
  "last_request_hash_key sid \<noteq> frozen_until_key sid"
  "last_request_hash_key sid \<noteq> freeze_reason_key sid"
  "identical_count_key sid \<noteq> request_count_key sid"
  "identical_count_key sid \<noteq> request_history_key sid"
  "identical_count_key sid \<noteq> last_request_hash_key sid"
  "identical_count_key sid \<noteq> spend_velocity_key sid"
  "identical_count_key sid \<noteq> frozen_until_key sid"
  "identical_count_key sid \<noteq> freeze_reason_key sid"
  "spend_velocity_key sid \<noteq> request_count_key sid"
  "spend_velocity_key sid \<noteq> request_history_key sid"
  "spend_velocity_key sid \<noteq> last_request_hash_key sid"
  "spend_velocity_key sid \<noteq> identical_count_key sid"
  "spend_velocity_key sid \<noteq> frozen_until_key sid"
  "spend_velocity_key sid \<noteq> freeze_reason_key sid"
  "frozen_until_key sid \<noteq> request_count_key sid"
  "frozen_until_key sid \<noteq> request_history_key sid"
  "frozen_until_key sid \<noteq> last_request_hash_key sid"
  "frozen_until_key sid \<noteq> identical_count_key sid"
  "frozen_until_key sid \<noteq> spend_velocity_key sid"
  "frozen_until_key sid \<noteq> freeze_reason_key sid"
  "freeze_reason_key sid \<noteq> request_count_key sid"
  "freeze_reason_key sid \<noteq> request_history_key sid"
  "freeze_reason_key sid \<noteq> last_request_hash_key sid"
  "freeze_reason_key sid \<noteq> identical_count_key sid"
  "freeze_reason_key sid \<noteq> spend_velocity_key sid"
  "freeze_reason_key sid \<noteq> frozen_until_key sid"
  by (simp_all add: anomaly_keys)

lemma ledger_keys_differ [simp]:
  "request_count_key sid \<noteq> get_budget_key sid'"
  "request_count_key sid \<noteq> get_spent_key sid'"
  "get_budget_key sid' \<noteq> request_count_key sid"
  "get_spent_key sid' \<noteq> request_count_key sid"
  "request_history_key sid \<noteq> get_budget_key sid'"
  "request_history_key sid \<noteq> get_spent_key sid'"
  "get_budget_key sid' \<noteq> request_history_key sid"
  "get_spent_key sid' \<noteq> request_history_key sid"
  "last_request_hash_key sid \<noteq> get_budget_key sid'"
  "last_request_hash_key sid \<noteq> get_spent_key sid'"
  "get_budget_key sid' \<noteq> last_request_hash_key sid"
  "get_spent_key sid' \<noteq> last_request_hash_key sid"
  "identical_count_key sid \<noteq> get_budget_key sid'"
  "identical_count_key sid \<noteq> get_spent_key sid'"
  "get_budget_key sid' \<noteq> identical_count_key sid"
  "get_spent_key sid' \<noteq> identical_count_key sid"
  "spend_velocity_key sid \<noteq> get_budget_key sid'"
  "spend_velocity_key sid \<noteq> get_spent_key sid'"
  "get_budget_key sid' \<noteq> spend_velocity_key sid"
  "get_spent_key sid' \<noteq> spend_velocity_key sid"
  "frozen_until_key sid \<noteq> get_budget_key sid'"
  "frozen_until_key sid \<noteq> get_spent_key sid'"
  "get_budget_key sid' \<noteq> frozen_until_key sid"
  "get_spent_key sid' \<noteq> frozen_until_key sid"
  "freeze_reason_key sid \<noteq> get_budget_key sid'"
  "freeze_reason_key sid \<noteq> get_spent_key sid'"
  "get_budget_key sid' \<noteq> freeze_reason_key sid"
  "get_spent_key sid' \<noteq> freeze_reason_key sid"
  by (simp_all add: anomaly_keys get_budget_key_def get_spent_key_def)

lemma budget_spent_across [simp]:
  "get_budget_key a \<noteq> get_spent_key b" "get_spent_key b \<noteq> get_budget_key a"
proof -
  have "rev (get_budget_key a) \<noteq> rev (get_spent_key b)"
    by (simp add: get_budget_key_def get_spent_key_def)
  then show "get_budget_key a \<noteq> get_spent_key b" by auto
  then show "get_spent_key b \<noteq> get_budget_key a" by simp
qed

lemma preservesD:
  "preserves I P m \<Longrightarrow> I w \<Longrightarrow> m w = (r, w') \<Longrightarrow> P r \<Longrightarrow> I w'"
  by (auto simp: preserves_def)










text \<open>The equations that evaluate a run on a concrete world.\<close>

lemmas run_simps =
  send_def ask_def field_digest_def check_anomalies_def check_identical_def check_velocity_def
  is_session_frozen_def freeze_session_def unfreeze_session_def log_anomaly_request_def
  io_bind_def io_return_def io_of_def io_raise_def redis_defs command_def run_on_store_def
  store_get_def store_set_def store_setex_def store_delete_def store_incr_def store_expire_def
  store_zadd_def store_zremrangebyscore_def store_zrange_all_def store_lpush_def
  store_ltrim_head_def live_def kept_expiry_def is_string_def truthy_reply_def fromisoformat_def
  get_request_hash_def truthy_messages_def Let_def zset_put_def new_detector_def empty_world_def
  reply_text_def strict_detector_def

lemma str_int_3: "str_int 3 = ''3''"
  by (simp add: str_int_def str_nat.simps digit_char_def)

text \<open>
  C2, at the default ceiling of 3, for a session with no state. Three identical
  requests in a row are all admitted: after the third the streak counter is 2 (the
  first request of a run is not counted) and the session is not frozen. The fourth
  identical request is the one rejected, and the reasons it returns and stores speak of
  3 identical requests. A different request in the place of the fourth is admitted and
  deletes the streak counter.
\<close>

theorem loop_on_fourth_identical:
  "fst (send_all field_digest new_detector ''s''
          [ask ''gpt-4'' 0, ask ''gpt-4'' 1, ask ''gpt-4'' 2] empty_world)
     = [Inr (False, None), Inr (False, None), Inr (False, None)] \<and>
   live (kv (snd (send_all field_digest new_detector ''s''
          [ask ''gpt-4'' 0, ask ''gpt-4'' 1, ask ''gpt-4'' 2] empty_world))) 2
        (identical_count_key ''s'') = Some (RInt 2) \<and>
   live (kv (snd (send_all field_digest new_detector ''s''
          [ask ''gpt-4'' 0, ask ''gpt-4'' 1, ask ''gpt-4'' 2] empty_world))) 2
        (frozen_until_key ''s'') = None \<and>
   fst (send_all field_digest new_detector ''s''
          [ask ''gpt-4'' 0, ask ''gpt-4'' 1, ask ''gpt-4'' 2, ask ''gpt-4'' 3] empty_world)
     = [Inr (False, None), Inr (False, None), Inr (False, None),
        Inr (True, Some ''Loop detected: 3 identical requests'')] \<and>
   live (kv (snd (send_all field_digest new_detector ''s''
          [ask ''gpt-4'' 0, ask ''gpt-4'' 1, ask ''gpt-4'' 2, ask ''gpt-4'' 3] empty_world))) 3
        (freeze_reason_key ''s'') = Some (RStr ''Loop detected: 3 identical consecutive requests'') \<and>
   fst (send_all field_digest new_detector ''s''
          [ask ''gpt-4'' 0, ask ''gpt-4'' 1, ask ''gpt-4'' 2, ask ''gpt-3.5-turbo'' 3] empty_world)
     = [Inr (False, None), Inr (False, None), Inr (False, None), Inr (False, None)] \<and>
   live (kv (snd (send_all field_digest new_detector ''s''
          [ask ''gpt-4'' 0, ask ''gpt-4'' 1, ask ''gpt-4'' 2, ask ''gpt-3.5-turbo'' 3] empty_world))) 3
        (identical_count_key ''s'') = None"
  by (simp add: run_simps str_int_3)

text \<open>
  C3, for a session with no state. After a request at 0 and another at 59 seconds the
  counter key holds 2 and expires at 119, not at 60: every request sets the time to
  live to 60 seconds again, and at 100 seconds the counter still reads 2. With a
  ceiling of two, requests at 0, 59 and 118 seconds make the third one rejected for
  3 requests in one minute.
\<close>

theorem rate_window_extends:
  "fst (send_all field_digest new_detector ''s'' [ask ''a'' 0, ask ''b'' 59] empty_world)
     = [Inr (False, None), Inr (False, None)] \<and>
   kv (snd (send_all field_digest new_detector ''s'' [ask ''a'' 0, ask ''b'' 59] empty_world))
        (request_count_key ''s'') = Some (Entry (RInt 2) (Some 119)) \<and>
   live (kv (snd (send_all field_digest new_detector ''s'' [ask ''a'' 0, ask ''b'' 59] empty_world)))
        100 (request_count_key ''s'') = Some (RInt 2) \<and>
   fst (send_all field_digest strict_detector ''s'' [ask ''a'' 0, ask ''b'' 59, ask ''a'' 118]
          empty_world)
     = [Inr (False, None), Inr (False, None),
        Inr (True, Some ''Rate limit exceeded: 3 requests in 1 minute'')]"
  by (simp add: run_simps str_int_3)


text \<open>With a ceiling of two, by evaluation: requests at 0 and 10 seconds pass, the
  request at 20 seconds is rejected for the rate, a request at 319 seconds is rejected as
  frozen, and at 320 seconds the session is not frozen.\<close>

lemma rate_limit_ceiling_two:
  "fst (send_all field_digest strict_detector ''s'' [ask ''a'' 0, ask ''b'' 10, ask ''a'' 20]
          empty_world)
     = [Inr (False, None), Inr (False, None),
        Inr (True, Some ''Rate limit exceeded: 3 requests in 1 minute'')] \<and>
   fst (send field_digest new_detector ''s'' (ask ''c'' 319)
          (snd (send_all field_digest strict_detector ''s'' [ask ''a'' 0, ask ''b'' 10, ask ''a'' 20]
             empty_world)))
     = Inr (True, Some ''Session frozen: Exceeded rate limit: 3 requests/minute'') \<and>
   fst (is_session_frozen ''s'' 320
          (snd (send_all field_digest strict_detector ''s'' [ask ''a'' 0, ask ''b'' 10, ask ''a'' 20]
             empty_world)))
     = Inr (False, None)"
  by (simp add: run_simps str_int_3)

subsection \<open>Admission pipeline\<close>

lemma preserves_weaken: "preserves I any_outcome m \<Longrightarrow> preserves I P m"
  by (simp add: preserves_def any_outcome_def)

text \<open>The keys of the ledger that the anomaly check and the budget check leave alone.\<close>

lemma kept_is_session_frozen:
  assumes "k \<notin> {frozen_until_key sid, freeze_reason_key sid}"
  shows "preserves (\<lambda>w. kv w k = e) P (is_session_frozen sid now)"
  unfolding is_session_frozen_def unfreeze_session_def redis_defs
  by (intro preserves_steps preserves_command_kv; use assms in auto)

lemma kept_freeze_session:
  assumes "k \<notin> {frozen_until_key sid, freeze_reason_key sid}"
  shows "preserves (\<lambda>w. kv w k = e) P (freeze_session det sid r now)"
  unfolding freeze_session_def redis_defs
  by (intro preserves_steps preserves_command_kv; use assms in auto)

lemma kept_check_anomalies:
  "preserves (\<lambda>w. kv w (get_spent_key sid') = e) any_outcome
     (check_anomalies dg det sid model ms mt c now)"
  unfolding check_anomalies_def check_identical_def check_velocity_def log_anomaly_request_def
    redis_defs
  by (intro preserves_bind preserves_try preserves_if preserves_let preserves_case_prod
      preserves_case_option preserves_case_sum preserves_return preserves_raise preserves_of
      preserves_command_kv kept_freeze_session kept_is_session_frozen; simp)

lemma kept_check_budget:
  "preserves (\<lambda>w. kv w (get_spent_key sid') = e) any_outcome (check_budget cfg sid c now)"
  unfolding check_budget_def redis_defs
  by (intro preserves_bind preserves_try preserves_if preserves_let preserves_case_prod
      preserves_case_option preserves_case_sum preserves_return preserves_raise preserves_of
      preserves_command_kv; simp)

lemma kept_get_budget_info:
  "preserves (\<lambda>w. kv w k = e) any_outcome (get_budget_info cfg sid now)"
  unfolding get_budget_info_def get_budget_def get_spent_def redis_defs
  by (intro preserves_bind preserves_try preserves_if preserves_let preserves_case_prod
      preserves_case_option preserves_case_sum preserves_return preserves_raise preserves_of
      preserves_command_kv; simp)

lemma kept_forward_and_settle:
  assumes "fst (forward_request outcome) \<noteq> 200"
  shows "preserves (\<lambda>w. kv w k = e) any_outcome
     (forward_and_settle cfg prices sid model est outcome later)"
proof -
  obtain status body hdrs where f: "forward_request outcome = (status, body, hdrs)"
    by (cases "forward_request outcome")
  with assms have ne: "status \<noteq> 200" by simp
  show ?thesis
    unfolding forward_and_settle_def f settle_usage_def settle_deduct_def
    using ne
    by (simp; intro preserves_bind preserves_try preserves_if preserves_let preserves_case_prod
      preserves_case_option preserves_case_sum preserves_return preserves_raise preserves_of
      preserves_log_request_kv)
qed

lemma kept_process_request:
  assumes "fst (forward_request outcome) \<noteq> 200"
  shows "preserves (\<lambda>w. kv w (get_spent_key sid') = e) any_outcome
     (process_request cfg prices det dg req outcome now later)"
  unfolding process_request_def
  by (intro preserves_bind preserves_try preserves_if preserves_let preserves_case_prod
      preserves_case_option preserves_case_sum preserves_return preserves_raise preserves_of
      preserves_log_request_kv kept_check_anomalies kept_check_budget kept_get_budget_info
      kept_forward_and_settle [OF assms])

lemma forward_and_settle_returns:
  assumes f: "forward_request outcome = (200, body, hdrs)" and ok: "usage_is_object body"
  shows "\<exists>w'. forward_and_settle cfg prices sid model est outcome later w =
            (Inr \<lparr>status_code = 200, content = JObj body, headers = preserved_headers hdrs\<rparr>, w') \<and>
     (\<forall>u e. map_of body ''usage'' = Some (JObj u) \<and> calculate_actual_cost prices model u = Inl e \<longrightarrow>
        (\<exists>x \<in> set (logged w'). log_decision x = ''allowed'' \<and>
           log_error x = Some (''Failed to calculate actual cost: '' @ str_error e))) \<and>
     (\<forall>u a e w3. map_of body ''usage'' = Some (JObj u) \<and>
         calculate_actual_cost prices model u = Inr a \<and> 0 < a \<and>
         deduct_cost cfg sid a later w = (Inl e, w3) \<longrightarrow>
        (\<exists>x \<in> set (logged w'). log_decision x = ''allowed'' \<and>
           log_error x = Some (''Failed to deduct cost: '' @ str_error e)))"
proof (cases "map_of body ''usage''")
  case None
  then show ?thesis
    by (simp add: forward_and_settle_def f settle_usage_def settle_deduct_def io_bind_def
        io_return_def log_request_def)
next
  case (Some j)
  with ok obtain u where j: "j = JObj u" by (cases j) (simp_all add: usage_is_object_def)
  show ?thesis
  proof (cases "calculate_actual_cost prices model u")
    case (Inl e)
    then show ?thesis using Some j
      by (simp add: forward_and_settle_def f settle_usage_def settle_deduct_def io_bind_def
          io_return_def io_try_def io_of_def log_request_def Let_def truthy_text_def)
  next
    case (Inr a)
    show ?thesis
    proof (cases "0 < a")
      case False
      then show ?thesis using Some j Inr
        by (simp add: forward_and_settle_def f settle_usage_def settle_deduct_def io_bind_def
            io_return_def io_try_def io_of_def log_request_def Let_def truthy_text_def)
    next
      case True
      obtain r w3 where d: "deduct_cost cfg sid a later w = (r, w3)"
        by (cases "deduct_cost cfg sid a later w")
      show ?thesis using Some j Inr True d
        by (cases r)
          (simp_all add: forward_and_settle_def f settle_usage_def settle_deduct_def io_bind_def
            io_return_def io_try_def io_of_def log_request_def Let_def truthy_text_def)
    qed
  qed
qed

lemma process_request_admitted:
  assumes "extract_session_id (req_headers req) (req_query req) (strict_mode cfg) = Some sid"
    and "check_anomalies dg det sid (request_model req) (body_messages req) (body_max_tokens req)
           0 now w = (Inr (False, r), w1)"
    and "estimate_cost prices (request_model req) None (body_max_tokens req) (body_messages req)
           = Inr est"
    and "check_budget cfg sid est now w1 = (Inr True, w2)"
  shows "process_request cfg prices det dg req outcome now later w
           = forward_and_settle cfg prices sid (request_model req) est outcome later w2"
  using assms
  by (simp add: process_request_def request_model_def Let_def io_bind_def io_try_def io_return_def)

lemma process_request_anomaly_raises:
  assumes "extract_session_id (req_headers req) (req_query req) (strict_mode cfg) = Some sid"
    and "check_anomalies dg det sid (request_model req) (body_messages req) (body_max_tokens req)
           0 now w = (Inl e, w1)"
  shows "process_request cfg prices det dg req outcome now later w = (Inl e, w1)"
  using assms
  by (simp add: process_request_def request_model_def Let_def io_bind_def)

lemma process_request_estimate_raises:
  assumes "extract_session_id (req_headers req) (req_query req) (strict_mode cfg) = Some sid"
    and "check_anomalies dg det sid (request_model req) (body_messages req) (body_max_tokens req)
           0 now w = (Inr (False, r), w1)"
    and "estimate_cost prices (request_model req) None (body_max_tokens req) (body_messages req)
           = Inl e"
  shows "fst (process_request cfg prices det dg req outcome now later w)
           = Inr (json_response 500
               (JObj (error_body (''Failed to estimate cost: '' @ str_error e) ''internal_error'')))"
  using assms
  by (simp add: process_request_def request_model_def Let_def io_bind_def io_return_def
      log_request_def)

lemma forward_and_settle_raises:
  assumes f: "forward_request outcome = (200, body, hdrs)" and odd: "\<not> usage_is_object body"
  shows "forward_and_settle cfg prices sid model est outcome later w = (Inl AttributeError, w)"
proof -
  from odd obtain j where j: "map_of body ''usage'' = Some j"
    by (cases "map_of body ''usage''") (simp_all add: usage_is_object_def)
  with odd have "\<forall>u. j \<noteq> JObj u" by (auto simp: usage_is_object_def)
  then show ?thesis using j
    by (cases j)
      (auto simp: forward_and_settle_def f settle_usage_def io_bind_def io_raise_def)
qed

lemma check_anomalies_first_fault:
  "check_anomalies dg det sid model ms mt c now (w\<lparr>faults := True # fs\<rparr>)
     = (Inl ConnectionError, w\<lparr>faults := fs\<rparr>)"
  by (simp add: check_anomalies_def is_session_frozen_def io_bind_def redis_get_def command_def)

lemma process_request_budget_raises:
  assumes "extract_session_id (req_headers req) (req_query req) (strict_mode cfg) = Some sid"
    and "check_anomalies dg det sid (request_model req) (body_messages req) (body_max_tokens req)
           0 now w = (Inr (False, r), w1)"
    and "estimate_cost prices (request_model req) None (body_max_tokens req) (body_messages req)
           = Inr est"
    and "check_budget cfg sid est now w1 = (Inl e, w2)"
  shows "fst (process_request cfg prices det dg req outcome now later w)
           = Inr (json_response 503
               (JObj (error_body ''Budget service unavailable'' ''service_unavailable'')))"
  using assms
  by (simp add: process_request_def request_model_def Let_def io_bind_def io_try_def io_return_def
      log_request_def)

text \<open>
  C8, as the code has it. Whatever the world, when the forwarded call does not come
  back with status 200 (a transport failure is turned into 504, 502 or 500),
  \<open>process_request\<close> leaves the spent amount of every session as it was. When the request
  passed the anomaly check, the estimate and the budget check, and the forwarded call
  came back with status 200, two cases differ. If the usage of the body, when it has
  one, is an object, \<open>process_request\<close> returns the upstream status and body with the
  preserved headers; a failure of \<open>calculate_actual_cost\<close> and a failure of
  \<open>deduct_cost\<close> are each recorded by a log entry with their text and do not change the
  response. If the body has a usage that is not an object (\<^verbatim>\<open>null\<close>, a number, a
  text, a list), the token counts are read from it before the \<^verbatim>\<open>try\<close> that guards the
  calculation: \<^verbatim>\<open>AttributeError\<close> leaves \<open>process_request\<close>, nothing is logged and the
  successful upstream answer is not returned.
\<close>

theorem accounting_guard_misses_usage:
  "(fst (forward_request outcome) \<noteq> 200 \<longrightarrow>
      kv (snd (process_request cfg prices det dg req outcome now later w)) (get_spent_key sid')
        = kv w (get_spent_key sid')) \<and>
   (extract_session_id (req_headers req) (req_query req) (strict_mode cfg) = Some sid \<and>
    check_anomalies dg det sid (request_model req) (body_messages req) (body_max_tokens req)
      0 now w = (Inr (False, r), w1) \<and>
    estimate_cost prices (request_model req) None (body_max_tokens req) (body_messages req)
      = Inr est \<and>
    check_budget cfg sid est now w1 = (Inr True, w2) \<and>
    forward_request outcome = (200, body, hdrs) \<and> usage_is_object body \<longrightarrow>
      (\<exists>w'. process_request cfg prices det dg req outcome now later w =
               (Inr \<lparr>status_code = 200, content = JObj body,
                     headers = preserved_headers hdrs\<rparr>, w') \<and>
            (\<forall>u e. map_of body ''usage'' = Some (JObj u) \<and>
                   calculate_actual_cost prices (request_model req) u = Inl e \<longrightarrow>
               (\<exists>x \<in> set (logged w'). log_decision x = ''allowed'' \<and>
                  log_error x = Some (''Failed to calculate actual cost: '' @ str_error e))) \<and>
            (\<forall>u a e w3. map_of body ''usage'' = Some (JObj u) \<and>
                   calculate_actual_cost prices (request_model req) u = Inr a \<and> 0 < a \<and>
                   deduct_cost cfg sid a later w2 = (Inl e, w3) \<longrightarrow>
               (\<exists>x \<in> set (logged w'). log_decision x = ''allowed'' \<and>
                  log_error x = Some (''Failed to deduct cost: '' @ str_error e))))) \<and>
   (extract_session_id (req_headers req) (req_query req) (strict_mode cfg) = Some sid \<and>
    check_anomalies dg det sid (request_model req) (body_messages req) (body_max_tokens req)
      0 now w = (Inr (False, r), w1) \<and>
    estimate_cost prices (request_model req) None (body_max_tokens req) (body_messages req)
      = Inr est \<and>
    check_budget cfg sid est now w1 = (Inr True, w2) \<and>
    forward_request outcome = (200, body, hdrs) \<and> \<not> usage_is_object body \<longrightarrow>
      process_request cfg prices det dg req outcome now later w = (Inl AttributeError, w2))"
proof (intro conjI impI)
  assume ne: "fst (forward_request outcome) \<noteq> 200"
  obtain res w' where run: "process_request cfg prices det dg req outcome now later w = (res, w')"
    by (cases "process_request cfg prices det dg req outcome now later w")
  have "kv w' (get_spent_key sid') = kv w (get_spent_key sid')"
    using preservesD [OF kept_process_request [OF ne], of w sid' "kv w (get_spent_key sid')"
        cfg prices det dg req now later res w'] run
    by (simp add: any_outcome_def)
  then show "kv (snd (process_request cfg prices det dg req outcome now later w)) (get_spent_key sid')
        = kv w (get_spent_key sid')"
    by (simp add: run)
next
  assume h: "extract_session_id (req_headers req) (req_query req) (strict_mode cfg) = Some sid \<and>
    check_anomalies dg det sid (request_model req) (body_messages req) (body_max_tokens req)
      0 now w = (Inr (False, r), w1) \<and>
    estimate_cost prices (request_model req) None (body_max_tokens req) (body_messages req)
      = Inr est \<and>
    check_budget cfg sid est now w1 = (Inr True, w2) \<and>
    forward_request outcome = (200, body, hdrs) \<and> usage_is_object body"
  then have eq: "process_request cfg prices det dg req outcome now later w
           = forward_and_settle cfg prices sid (request_model req) est outcome later w2"
    by (elim conjE) (rule process_request_admitted)
  from h have f: "forward_request outcome = (200, body, hdrs)" and ok: "usage_is_object body"
    by blast+
  show "\<exists>w'. process_request cfg prices det dg req outcome now later w =
               (Inr \<lparr>status_code = 200, content = JObj body,
                     headers = preserved_headers hdrs\<rparr>, w') \<and>
            (\<forall>u e. map_of body ''usage'' = Some (JObj u) \<and>
                   calculate_actual_cost prices (request_model req) u = Inl e \<longrightarrow>
               (\<exists>x \<in> set (logged w'). log_decision x = ''allowed'' \<and>
                  log_error x = Some (''Failed to calculate actual cost: '' @ str_error e))) \<and>
            (\<forall>u a e w3. map_of body ''usage'' = Some (JObj u) \<and>
                   calculate_actual_cost prices (request_model req) u = Inr a \<and> 0 < a \<and>
                   deduct_cost cfg sid a later w2 = (Inl e, w3) \<longrightarrow>
               (\<exists>x \<in> set (logged w'). log_decision x = ''allowed'' \<and>
                  log_error x = Some (''Failed to deduct cost: '' @ str_error e)))"
    unfolding eq by (rule forward_and_settle_returns [OF f ok])
next
  assume h: "extract_session_id (req_headers req) (req_query req) (strict_mode cfg) = Some sid \<and>
    check_anomalies dg det sid (request_model req) (body_messages req) (body_max_tokens req)
      0 now w = (Inr (False, r), w1) \<and>
    estimate_cost prices (request_model req) None (body_max_tokens req) (body_messages req)
      = Inr est \<and>
    check_budget cfg sid est now w1 = (Inr True, w2) \<and>
    forward_request outcome = (200, body, hdrs) \<and> \<not> usage_is_object body"
  then have eq: "process_request cfg prices det dg req outcome now later w
           = forward_and_settle cfg prices sid (request_model req) est outcome later w2"
    by (elim conjE) (rule process_request_admitted)
  from h have f: "forward_request outcome = (200, body, hdrs)" and odd: "\<not> usage_is_object body"
    by blast+
  show "process_request cfg prices det dg req outcome now later w = (Inl AttributeError, w2)"
    unfolding eq by (rule forward_and_settle_raises [OF f odd])
qed

text \<open>
  C9, as the code has it. A store failure during \<open>check_anomalies\<close> is raised out of
  \<open>check_anomalies\<close> and, the call standing outside every \<^verbatim>\<open>try\<close>, out of
  \<open>process_request\<close>: no response is returned, in particular not the 503 that the
  claim describes. So it is when the first round trip of the check fails. The budget
  check that follows is guarded: its failure is answered with the 503 response.
\<close>

theorem anomaly_store_failure_escapes:
  "(extract_session_id (req_headers req) (req_query req) (strict_mode cfg) = Some sid \<and>
    check_anomalies dg det sid (request_model req) (body_messages req) (body_max_tokens req)
      0 now w = (Inl e, w1) \<longrightarrow>
      process_request cfg prices det dg req outcome now later w = (Inl e, w1)) \<and>
   check_anomalies dg det sid model ms mt c now (w\<lparr>faults := True # fs\<rparr>)
     = (Inl ConnectionError, w\<lparr>faults := fs\<rparr>) \<and>
   (extract_session_id (req_headers req) (req_query req) (strict_mode cfg) = Some sid \<longrightarrow>
      process_request cfg prices det dg req outcome now later (w\<lparr>faults := True # fs\<rparr>)
        = (Inl ConnectionError, w\<lparr>faults := fs\<rparr>)) \<and>
   (extract_session_id (req_headers req) (req_query req) (strict_mode cfg) = Some sid \<and>
    check_anomalies dg det sid (request_model req) (body_messages req) (body_max_tokens req)
      0 now w = (Inr (False, r), w1) \<and>
    estimate_cost prices (request_model req) None (body_max_tokens req) (body_messages req)
      = Inr est \<and>
    check_budget cfg sid est now w1 = (Inl e, w2) \<longrightarrow>
      fst (process_request cfg prices det dg req outcome now later w)
        = Inr (json_response 503
            (JObj (error_body ''Budget service unavailable'' ''service_unavailable''))))"
proof (intro conjI impI)
  assume "extract_session_id (req_headers req) (req_query req) (strict_mode cfg) = Some sid \<and>
    check_anomalies dg det sid (request_model req) (body_messages req) (body_max_tokens req)
      0 now w = (Inl e, w1)"
  then show "process_request cfg prices det dg req outcome now later w = (Inl e, w1)"
    by (elim conjE) (rule process_request_anomaly_raises)
next
  show "check_anomalies dg det sid model ms mt c now (w\<lparr>faults := True # fs\<rparr>)
     = (Inl ConnectionError, w\<lparr>faults := fs\<rparr>)"
    by (rule check_anomalies_first_fault)
next
  assume "extract_session_id (req_headers req) (req_query req) (strict_mode cfg) = Some sid"
  then show "process_request cfg prices det dg req outcome now later (w\<lparr>faults := True # fs\<rparr>)
        = (Inl ConnectionError, w\<lparr>faults := fs\<rparr>)"
    by (rule process_request_anomaly_raises) (rule check_anomalies_first_fault)
next
  assume "extract_session_id (req_headers req) (req_query req) (strict_mode cfg) = Some sid \<and>
    check_anomalies dg det sid (request_model req) (body_messages req) (body_max_tokens req)
      0 now w = (Inr (False, r), w1) \<and>
    estimate_cost prices (request_model req) None (body_max_tokens req) (body_messages req)
      = Inr est \<and>
    check_budget cfg sid est now w1 = (Inl e, w2)"
  then show "fst (process_request cfg prices det dg req outcome now later w)
        = Inr (json_response 503
            (JObj (error_body ''Budget service unavailable'' ''service_unavailable'')))"
    by (elim conjE) (rule process_request_budget_raises)
qed

lemma hello_session:
  "extract_session_id (req_headers hello_request) (req_query hello_request)
     (strict_mode default_settings) = Some ''default''"
  by (simp add: extract_session_id_def hello_request_def default_settings_def py_or_def
      truthy_text_def)

text \<open>The default session asks for \<^verbatim>\<open>gpt-4\<close> while the first round trip to the store
  fails: the connection error leaves \<open>process_request\<close>.\<close>

theorem anomaly_store_failure_escapes_witness:
  "process_request default_settings turbo_table new_detector field_digest hello_request
     TimeoutException 0 1 (empty_world\<lparr>faults := [True]\<rparr>) = (Inl ConnectionError, empty_world)"
proof -
  have e: "empty_world\<lparr>faults := []\<rparr> = empty_world" by (simp add: empty_world_def)
  show ?thesis
    using anomaly_store_failure_escapes [THEN conjunct2, THEN conjunct2, THEN conjunct1,
        rule_format, OF hello_session, where w = empty_world and fs = "[]"]
    unfolding e .
qed

text \<open>Facts of the scenarios.\<close>

lemmas ledger_simps =
  check_budget_def deduct_cost_def io_try_def to_decimal_def store_get2_def store_set_queued_def
  default_settings_def

lemma hello_model: "request_model hello_request = ''gpt-4''"
  by (simp add: request_model_def hello_request_def)

lemma hello_fields:
  "body_messages hello_request = Some [''hello world'']" "body_max_tokens hello_request = None"
  by (simp_all add: hello_request_def)

lemma hello_estimate:
  "estimate_cost turbo_table ''gpt-4'' None None (Some [''hello world'']) = Inr (189 / 6250)"
  by (simp add: estimate_cost_def pricing_or_fallback_def get_pricing_def turbo_table_def
      dict_get_def truthy_messages_def py_split_def is_space_def float_of_int_def fits_float_def)

lemma preserved_upstream_headers:
  "preserved_headers upstream_headers = [(''Content-Type'', ''application/json'')]"
  by (simp add: preserved_headers_def upstream_headers_def lower_char_def)

lemma odd_usage:
  "forward_request (Responded 200 (Some odd_usage_body) [] upstream_headers)
     = (200, odd_usage_body, upstream_headers)"
  "usage_is_object odd_usage_body"
  "map_of odd_usage_body ''usage''
     = Some (JObj [(''prompt_tokens'', JStr ''many''), (''completion_tokens'', JInt 5)])"
  "calculate_actual_cost turbo_table ''gpt-4''
     [(''prompt_tokens'', JStr ''many''), (''completion_tokens'', JInt 5)] = Inl TypeError"
  by (simp_all add: usage_is_object_def odd_usage_body_def calculate_actual_cost_def
      pricing_or_fallback_def get_pricing_def turbo_table_def dict_get_def per_thousand_def)

lemma null_usage:
  "forward_request (Responded 200 (Some null_usage_body) [] upstream_headers)
     = (200, null_usage_body, upstream_headers)"
  "\<not> usage_is_object null_usage_body"
  by (simp_all add: usage_is_object_def null_usage_body_def)

lemma good_usage:
  "forward_request (Responded 200 (Some usage_body) [] upstream_headers)
     = (200, usage_body, upstream_headers)"
  "usage_is_object usage_body"
  "map_of usage_body ''usage''
     = Some (JObj [(''prompt_tokens'', JInt 10), (''completion_tokens'', JInt 5)])"
  "calculate_actual_cost turbo_table ''gpt-4''
     [(''prompt_tokens'', JInt 10), (''completion_tokens'', JInt 5)] = Inr (3 / 5000)"
  by (simp_all add: usage_is_object_def usage_body_def calculate_actual_cost_def
      pricing_or_fallback_def get_pricing_def turbo_table_def dict_get_def per_thousand_def
      float_of_int_def fits_float_def)

text \<open>
  Four runs for the default session. A timeout of the forwarded call leaves the 6.50
  spent by session \<^verbatim>\<open>s\<close> as it is. A successful response whose prompt token count is a
  text makes \<open>calculate_actual_cost\<close> raise: the response is returned and the failure
  logged. On the connection that fails at the seventeenth round trip \<open>deduct_cost\<close>
  raises: the response is returned and the failure logged. A successful response whose
  usage is \<^verbatim>\<open>null\<close> makes \<open>process_request\<close> raise \<^verbatim>\<open>AttributeError\<close>: no response is
  returned.
\<close>

theorem accounting_guard_misses_usage_witness:
  "kv (snd (process_request default_settings turbo_table new_detector field_digest hello_request
              TimeoutException 0 1 funded_world)) (get_spent_key ''s'')
     = Some (Entry (RDec (13 / 2)) None) \<and>
   fst (process_request default_settings turbo_table new_detector field_digest hello_request
          (Responded 200 (Some odd_usage_body) [] upstream_headers) 0 1 empty_world)
     = Inr \<lparr>status_code = 200, content = JObj odd_usage_body,
            headers = [(''Content-Type'', ''application/json'')]\<rparr> \<and>
   (\<exists>x \<in> set (logged (snd (process_request default_settings turbo_table new_detector
          field_digest hello_request
          (Responded 200 (Some odd_usage_body) [] upstream_headers) 0 1 empty_world))).
      log_decision x = ''allowed'' \<and>
      log_error x = Some ''Failed to calculate actual cost: TypeError'') \<and>
   fst (process_request default_settings turbo_table new_detector field_digest hello_request
          (Responded 200 (Some usage_body) [] upstream_headers) 0 1 flaky_world)
     = Inr \<lparr>status_code = 200, content = JObj usage_body,
            headers = [(''Content-Type'', ''application/json'')]\<rparr> \<and>
   (\<exists>x \<in> set (logged (snd (process_request default_settings turbo_table new_detector
          field_digest hello_request
          (Responded 200 (Some usage_body) [] upstream_headers) 0 1 flaky_world))).
      log_decision x = ''allowed'' \<and>
      log_error x = Some
        ''Failed to deduct cost: Failed to deduct cost for session default: ConnectionError'') \<and>
   fst (process_request default_settings turbo_table new_detector field_digest hello_request
          (Responded 200 (Some null_usage_body) [] upstream_headers) 0 1 empty_world)
     = Inl AttributeError"
proof -
  have timeout: "fst (forward_request TimeoutException) \<noteq> 200" by simp
  have first: "kv (snd (process_request default_settings turbo_table new_detector field_digest
              hello_request TimeoutException 0 1 funded_world)) (get_spent_key ''s'')
     = Some (Entry (RDec (13 / 2)) None)"
    using accounting_guard_misses_usage [THEN conjunct1, rule_format, OF timeout,
        where w = funded_world and sid' = "''s''"]
    by (simp add: funded_world_def)
  define w1 where "w1 = snd (check_anomalies field_digest new_detector ''default'' ''gpt-4''
      (Some [''hello world'']) None 0 0 empty_world)"
  have a: "check_anomalies field_digest new_detector ''default'' (request_model hello_request)
      (body_messages hello_request) (body_max_tokens hello_request) 0 0 empty_world
      = (Inr (False, None), w1)"
    unfolding w1_def hello_model hello_fields by (simp add: run_simps)
  define w2 where "w2 = snd (check_budget default_settings ''default'' (189 / 6250) 0 w1)"
  have b: "check_budget default_settings ''default'' (189 / 6250) 0 w1 = (Inr True, w2)"
    unfolding w2_def w1_def by (simp add: run_simps ledger_simps)
  have est: "estimate_cost turbo_table (request_model hello_request) None
      (body_max_tokens hello_request) (body_messages hello_request) = Inr (189 / 6250)"
    unfolding hello_model hello_fields by (rule hello_estimate)
  from accounting_guard_misses_usage [THEN conjunct2, THEN conjunct1, rule_format,
      OF conjI [OF hello_session conjI [OF a conjI [OF est conjI [OF b conjI [OF odd_usage(1,2)]]]]]]
  obtain w' where
    r: "process_request default_settings turbo_table new_detector field_digest hello_request
          (Responded 200 (Some odd_usage_body) [] upstream_headers) 0 1 empty_world
        = (Inr \<lparr>status_code = 200, content = JObj odd_usage_body,
                 headers = preserved_headers upstream_headers\<rparr>, w')"
    and l: "\<And>u e. map_of odd_usage_body ''usage'' = Some (JObj u) \<and>
                   calculate_actual_cost turbo_table (request_model hello_request) u = Inl e \<Longrightarrow>
               (\<exists>x \<in> set (logged w'). log_decision x = ''allowed'' \<and>
                  log_error x = Some (''Failed to calculate actual cost: '' @ str_error e))"
    by blast
  have second: "fst (process_request default_settings turbo_table new_detector field_digest
          hello_request (Responded 200 (Some odd_usage_body) [] upstream_headers) 0 1 empty_world)
     = Inr \<lparr>status_code = 200, content = JObj odd_usage_body,
            headers = [(''Content-Type'', ''application/json'')]\<rparr>"
    unfolding r preserved_upstream_headers by simp
  have third: "\<exists>x \<in> set (logged (snd (process_request default_settings turbo_table new_detector
          field_digest hello_request
          (Responded 200 (Some odd_usage_body) [] upstream_headers) 0 1 empty_world))).
      log_decision x = ''allowed'' \<and>
      log_error x = Some ''Failed to calculate actual cost: TypeError''"
    unfolding r using l [OF conjI [OF odd_usage(3)], unfolded hello_model, OF odd_usage(4)]
    by simp
  define v1 where "v1 = snd (check_anomalies field_digest new_detector ''default'' ''gpt-4''
      (Some [''hello world'']) None 0 0 flaky_world)"
  have a': "check_anomalies field_digest new_detector ''default'' (request_model hello_request)
      (body_messages hello_request) (body_max_tokens hello_request) 0 0 flaky_world
      = (Inr (False, None), v1)"
    unfolding v1_def hello_model hello_fields by (simp add: run_simps flaky_world_def)
  define v2 where "v2 = snd (check_budget default_settings ''default'' (189 / 6250) 0 v1)"
  have b': "check_budget default_settings ''default'' (189 / 6250) 0 v1 = (Inr True, v2)"
    unfolding v2_def v1_def by (simp add: run_simps ledger_simps flaky_world_def)
  define v3 where "v3 = snd (deduct_cost default_settings ''default'' (3 / 5000) 1 v2)"
  have d: "deduct_cost default_settings ''default'' (3 / 5000) 1 v2
      = (Inl (RuntimeError ''Failed to deduct cost for session default: '' ConnectionError), v3)"
    unfolding v3_def v2_def v1_def by (simp add: run_simps ledger_simps flaky_world_def)
  from accounting_guard_misses_usage [THEN conjunct2, THEN conjunct1, rule_format,
      OF conjI [OF hello_session conjI [OF a' conjI [OF est conjI [OF b' conjI [OF good_usage(1,2)]]]]]]
  obtain v' where
    r': "process_request default_settings turbo_table new_detector field_digest hello_request
          (Responded 200 (Some usage_body) [] upstream_headers) 0 1 flaky_world
        = (Inr \<lparr>status_code = 200, content = JObj usage_body,
                 headers = preserved_headers upstream_headers\<rparr>, v')"
    and l': "\<And>u a e w3. map_of usage_body ''usage'' = Some (JObj u) \<and>
                   calculate_actual_cost turbo_table (request_model hello_request) u = Inr a \<and>
                   0 < a \<and> deduct_cost default_settings ''default'' a 1 v2 = (Inl e, w3) \<Longrightarrow>
               (\<exists>x \<in> set (logged v'). log_decision x = ''allowed'' \<and>
                  log_error x = Some (''Failed to deduct cost: '' @ str_error e))"
    by blast
  have pos: "(0::rat) < 3 / 5000" by simp
  have fourth: "fst (process_request default_settings turbo_table new_detector field_digest
          hello_request (Responded 200 (Some usage_body) [] upstream_headers) 0 1 flaky_world)
     = Inr \<lparr>status_code = 200, content = JObj usage_body,
            headers = [(''Content-Type'', ''application/json'')]\<rparr>"
    unfolding r' preserved_upstream_headers by simp
  have fifth: "\<exists>x \<in> set (logged (snd (process_request default_settings turbo_table new_detector
          field_digest hello_request
          (Responded 200 (Some usage_body) [] upstream_headers) 0 1 flaky_world))).
      log_decision x = ''allowed'' \<and>
      log_error x = Some
        ''Failed to deduct cost: Failed to deduct cost for session default: ConnectionError''"
    unfolding r'
    using l' [OF conjI [OF good_usage(3) conjI [OF good_usage(4) [folded hello_model] conjI [OF pos d]]]]
    by simp
  have sixth: "fst (process_request default_settings turbo_table new_detector field_digest
          hello_request (Responded 200 (Some null_usage_body) [] upstream_headers) 0 1 empty_world)
     = Inl AttributeError"
    using accounting_guard_misses_usage [THEN conjunct2, THEN conjunct2, rule_format,
      OF conjI [OF hello_session conjI [OF a conjI [OF est conjI [OF b conjI [OF null_usage(1,2)]]]]]]
    by simp
  from first second third fourth fifth sixth show ?thesis by (intro conjI)
qed



lemma succeeds_strengthen:
  "succeeds P m R \<Longrightarrow> (\<And>w. P' w \<Longrightarrow> P w) \<Longrightarrow> succeeds P' m R"
  by (simp add: succeeds_def)




lemma sum_nonneg_scores:
  "list_all (\<lambda>(m, sc). (0::rat) \<le> sc) z \<Longrightarrow> 0 \<le> sum_list (map snd z)"
  by (induction z) auto







































end
